theory Spec2Isabelle
  imports Main
begin

section \<open>Values exchanged with the NeosVR API\<close>

text \<open>
  The client of \<^verbatim>\<open>neosvrpy/client.py\<close> receives decoded JSON from
  \<^verbatim>\<open>requests\<close> and turns it into the dataclasses of
  \<^verbatim>\<open>neosvrpy/classes.py\<close> with \<^verbatim>\<open>dacite.from_dict\<close>.
  A decoded JSON value is a Python value: \<open>JNull\<close> is \<^verbatim>\<open>None\<close>,
  \<open>JArr\<close> a list and \<open>JObj\<close> a dict, kept as an association list whose
  keys are distinct. A number with a fraction or an exponent keeps its literal; no
  operation of the client computes with it.
\<close>

datatype json =
    JNull
  | JBool bool
  | JInt int
  | JFloat string
  | JStr string
  | JArr "json list"
  | JObj "(string \<times> json) list"

type_synonym pydict = "(string \<times> json) list"

text \<open>
  A \<^verbatim>\<open>datetime\<close> is modelled by its distance from the epoch in microseconds,
  the resolution of Python's type. \<^verbatim>\<open>total_seconds()\<close> and
  \<^verbatim>\<open>timestamp()\<close> divide that count by \<open>10\<^sup>6\<close>; the comparisons of the client
  are written on the microsecond counts, where they are exact.
\<close>

type_synonym datetime = int

text \<open>\<^verbatim>\<open>urllib.parse.ParseResult\<close>, the six components of a parsed URL.\<close>

record ParseResult =
  scheme :: string
  netloc :: string
  path :: string
  params :: string
  query :: string
  fragment :: string

subsection \<open>HTTP requests and responses\<close>

text \<open>
  \<^verbatim>\<open>_request\<close> looks the verb up on the \<^verbatim>\<open>requests.Session\<close>; the client
  only ever passes the five literals below.
\<close>

datatype http_verb = Get | Post | Put | Patch | Delete

text \<open>
  What one call of \<^verbatim>\<open>func(**args)\<close> hands to the transport: the verb, the
  entries of \<^verbatim>\<open>args\<close> (\<open>None\<close> for a key that was not put into the dict) and the
  headers of the session at the time of the call, which \<^verbatim>\<open>requests\<close> sends
  with every request.
\<close>

record http_request =
  req_verb :: http_verb
  req_url :: string
  req_data :: "pydict option"
  req_json :: "pydict option"
  req_params :: "pydict option"
  req_headers :: "string \<rightharpoonup> string"

text \<open>
  A \<^verbatim>\<open>requests.Response\<close>: \<^verbatim>\<open>status_code\<close>, \<^verbatim>\<open>text\<close>,
  \<^verbatim>\<open>headers\<close> and the outcome of \<^verbatim>\<open>json()\<close>, \<open>None\<close> when the body
  does not parse (\<^verbatim>\<open>JSONDecodeError\<close>).
\<close>

record response =
  status_code :: int
  text' :: string
  headers :: "(string \<times> string) list"
  json' :: "json option"

subsection \<open>Exceptions\<close>

text \<open>
  Every exception the modelled code can raise is a value. The argument of
  \<^verbatim>\<open>InvalidToken\<close> is a message or the response headers.
  \<open>EnumValueError\<close> is the \<^verbatim>\<open>ValueError\<close> of an \<^verbatim>\<open>Enum\<close> constructor
  (\<^verbatim>\<open>'x' is not a valid RecordType\<close>): it carries the enum's name and the rejected
  value. \<open>MissingValueError\<close> and \<open>WrongTypeError\<close> are dacite's, with the name of
  the field. \<open>TypeHookError\<close> says that a type hook of
  \<^verbatim>\<open>DACITE_CONFIG\<close> (\<^verbatim>\<open>isoparse\<close>, \<^verbatim>\<open>urlparse\<close>) did not produce
  a value of the field's type from what the payload has under the named field: the hook
  raised, or dacite rejected what it returned. Which Python exception that is depends
  on the library and on the value, and nothing below depends on it.
\<close>

datatype token_detail = Message string | Headers "(string \<times> string) list"

datatype error =
    MissingValueError string
  | WrongTypeError string
  | TypeHookError string
  | EnumValueError string json
  | ValueError string
  | TypeError string
  | KeyError string
  | AttributeError string
  | JSONDecodeError
  | NeosException string
  | NoTokenError
  | InvalidToken token_detail
  | InvalidCredentials string
  | NeosAPIException response "json option"

text \<open>Sequencing of two steps, the second skipped when the first raises.\<close>

definition ebind :: "error + 'a \<Rightarrow> ('a \<Rightarrow> error + 'b) \<Rightarrow> error + 'b" where
  "ebind m f = (case m of Inl e \<Rightarrow> Inl e | Inr v \<Rightarrow> f v)"

text \<open>Python truthiness of an \<^verbatim>\<open>Optional[str]\<close>: neither \<^verbatim>\<open>None\<close> nor empty.\<close>

definition truthy :: "string option \<Rightarrow> bool" where
  "truthy s = (case s of None \<Rightarrow> False | Some v \<Rightarrow> v \<noteq> [])"

text \<open>\<^verbatim>\<open>str.format\<close> and f-strings print \<^verbatim>\<open>None\<close> as \<^verbatim>\<open>None\<close>.\<close>

definition str_of :: "string option \<Rightarrow> string" where
  "str_of s = (case s of None \<Rightarrow> ''None'' | Some v \<Rightarrow> v)"

text \<open>\<^verbatim>\<open>sub in s\<close> on two strings.\<close>

fun startswith :: "string \<Rightarrow> string \<Rightarrow> bool" where
  "startswith s [] = True"
| "startswith [] (c # cs) = False"
| "startswith (x # xs) (c # cs) = (x = c \<and> startswith xs cs)"

fun str_contains :: "string \<Rightarrow> string \<Rightarrow> bool" where
  "str_contains [] sub = (sub = [])"
| "str_contains (x # xs) sub = (startswith (x # xs) sub \<or> str_contains xs sub)"

text \<open>\<^verbatim>\<open>s.split(sep)\<close> for a separator of one character.\<close>

fun split :: "string \<Rightarrow> char \<Rightarrow> string list" where
  "split [] sep = [[]]"
| "split (c # cs) sep =
     (if c = sep then [] # split cs sep
      else (case split cs sep of [] \<Rightarrow> [[c]] | w # ws \<Rightarrow> (c # w) # ws))"

section \<open>The domain model (classes.py)\<close>

datatype RecordType = OBJECT | LINK | DIRECTORY | WORLD | TEXTURE | AUDIO

text \<open>\<^verbatim>\<open>RecordType(value)\<close>: the member with that value, if there is one.\<close>

definition RecordType_of :: "string \<Rightarrow> RecordType option" where
  "RecordType_of s =
     (if s = ''object'' then Some OBJECT
      else if s = ''link'' then Some LINK
      else if s = ''directory'' then Some DIRECTORY
      else if s = ''world'' then Some WORLD
      else if s = ''texture'' then Some TEXTURE
      else if s = ''audio'' then Some AUDIO
      else None)"

record NeosRecord =
  id' :: string
  globalVersion :: int
  localVersion :: int
  lastModifyingUserId :: "string option"
  name :: string
  recordType :: RecordType
  path :: "string option"
  isPublic :: bool
  isForPatrons :: bool
  isListed :: bool
  isDeleted :: bool
  lastModificationTime :: datetime
  visits :: int
  rating :: int
  ownerId :: string

record NeosLink = NeosRecord +
  assetUri :: ParseResult

record NeosDirectory = NeosRecord +
  lastModifyingMachineId :: "string option"
  ownerName :: string
  tags :: "string list"
  creationTime :: "datetime option"

record NeosObject = NeosRecord +
  assetUri :: string
  lastModifyingMachineId :: string
  ownerName :: string
  tags :: "string list"
  creationTime :: datetime

text \<open>
  \<^verbatim>\<open>NeosWorld\<close>, \<^verbatim>\<open>NeosTexture\<close> and \<^verbatim>\<open>NeosAudio\<close> add no field to
  \<^verbatim>\<open>NeosRecord\<close>; an object of one of the six classes is a value of
  \<open>record_obj\<close>, the constructor being its class.
\<close>

datatype record_class =
  C_NeosDirectory | C_NeosLink | C_NeosObject | C_NeosWorld | C_NeosTexture | C_NeosAudio

datatype record_obj =
    DirectoryObj NeosDirectory
  | LinkObj NeosLink
  | ObjectObj NeosObject
  | WorldObj NeosRecord
  | TextureObj NeosRecord
  | AudioObj NeosRecord

fun class_of :: "record_obj \<Rightarrow> record_class" where
  "class_of (DirectoryObj d) = C_NeosDirectory"
| "class_of (LinkObj l) = C_NeosLink"
| "class_of (ObjectObj ob) = C_NeosObject"
| "class_of (WorldObj r) = C_NeosWorld"
| "class_of (TextureObj r) = C_NeosTexture"
| "class_of (AudioObj r) = C_NeosAudio"

text \<open>The fields an object inherits from \<^verbatim>\<open>NeosRecord\<close>.\<close>

fun base_of :: "record_obj \<Rightarrow> NeosRecord" where
  "base_of (DirectoryObj d) = NeosRecord.truncate d"
| "base_of (LinkObj l) = NeosRecord.truncate l"
| "base_of (ObjectObj ob) = NeosRecord.truncate ob"
| "base_of (WorldObj r) = r"
| "base_of (TextureObj r) = r"
| "base_of (AudioObj r) = r"

text \<open>The dict \<^verbatim>\<open>recordTypeMapping\<close>; it has an entry for each member of the enum.\<close>

fun recordTypeMapping :: "RecordType \<Rightarrow> record_class" where
  "recordTypeMapping DIRECTORY = C_NeosDirectory"
| "recordTypeMapping LINK = C_NeosLink"
| "recordTypeMapping OBJECT = C_NeosObject"
| "recordTypeMapping WORLD = C_NeosWorld"
| "recordTypeMapping TEXTURE = C_NeosTexture"
| "recordTypeMapping AUDIO = C_NeosAudio"

subsection \<open>LoginDetails\<close>

record LoginDetails =
  ownerId :: "string option"
  username :: "string option"
  email :: "string option"
  password :: "string option"
  secretMachineId :: string
  rememberMe :: bool

text \<open>
  The dataclass constructor: the generated \<^verbatim>\<open>__init__\<close> stores the fields and
  calls \<^verbatim>\<open>__post_init__\<close>, whose two checks raise \<^verbatim>\<open>NeosException\<close>. When
  one raises, the caller gets the exception and no object. \<open>smid\<close> is the supplied
  \<^verbatim>\<open>secretMachineId\<close> or the one \<^verbatim>\<open>neosvrpy.secrets.generate\<close> made.
\<close>

definition LoginDetails_init ::
  "string option \<Rightarrow> string option \<Rightarrow> string option \<Rightarrow> string option \<Rightarrow> string \<Rightarrow> bool
   \<Rightarrow> error + LoginDetails" where
  "LoginDetails_init own usr eml pwd smid rem =
     (if \<not> truthy own \<and> \<not> truthy usr \<and> \<not> truthy eml
      then Inl (NeosException ''Either an ownerId, an username or an email is needed'')
      else if \<not> truthy pwd
      then Inl (NeosException ''A password is needed'')
      else Inr \<lparr>LoginDetails.ownerId = own, username = usr, email = eml, password = pwd,
                 LoginDetails.secretMachineId = smid, LoginDetails.rememberMe = rem\<rparr>)"

section \<open>The surroundings of the client\<close>

text \<open>
  What the client calls into and does not define: the constants
  \<^verbatim>\<open>__version__\<close> and \<^verbatim>\<open>CLOUDX_NEOS_API\<close>, the parsers and printers of
  \<^verbatim>\<open>dateutil\<close>, \<^verbatim>\<open>urllib\<close> and \<^verbatim>\<open>datetime\<close> (\<open>None\<close> where the
  parser raises), the server behind the transport, which answers a request knowing the
  requests sent before it, and the clock: \<open>now n\<close> is what the \<open>n\<close>-th call of
  \<^verbatim>\<open>datetime.now()\<close> returns.
\<close>

record env =
  version :: string
  CLOUDX_NEOS_API :: string
  isoparse :: "string \<Rightarrow> datetime option"
  urlparse :: "string \<Rightarrow> ParseResult"
  isoformat :: "datetime \<Rightarrow> string"
  fromisoformat :: "string \<Rightarrow> datetime option"
  transport :: "http_request list \<Rightarrow> http_request \<Rightarrow> response"
  now :: "nat \<Rightarrow> datetime"

section \<open>Decoding with dacite\<close>

text \<open>
  \<^verbatim>\<open>dacite.from_dict(cls, raw, DACITE_CONFIG)\<close> walks the fields of the dataclass
  in declaration order. For a key that is present it builds the value (a type hook for
  \<^verbatim>\<open>datetime\<close> and \<^verbatim>\<open>ParseResult\<close>, a cast for the enums) and checks it
  against the annotation; a missing key is \<^verbatim>\<open>None\<close> for an \<^verbatim>\<open>Optional\<close>
  field and \<^verbatim>\<open>MissingValueError\<close> otherwise; keys that name no field are
  ignored. One function per annotation used by the record classes follows.
\<close>

definition field_str :: "pydict \<Rightarrow> string \<Rightarrow> error + string" where
  "field_str raw k =
     (case map_of raw k of
        None \<Rightarrow> Inl (MissingValueError k)
      | Some (JStr s) \<Rightarrow> Inr s
      | Some _ \<Rightarrow> Inl (WrongTypeError k))"

definition field_opt_str :: "pydict \<Rightarrow> string \<Rightarrow> error + string option" where
  "field_opt_str raw k =
     (case map_of raw k of
        None \<Rightarrow> Inr None
      | Some JNull \<Rightarrow> Inr None
      | Some (JStr s) \<Rightarrow> Inr (Some s)
      | Some _ \<Rightarrow> Inl (WrongTypeError k))"

text \<open>\<^verbatim>\<open>bool\<close> is a subclass of \<^verbatim>\<open>int\<close>, so the check of an \<^verbatim>\<open>int\<close> field
  lets a boolean through; \<^verbatim>\<open>True == 1\<close>.\<close>

definition field_int :: "pydict \<Rightarrow> string \<Rightarrow> error + int" where
  "field_int raw k =
     (case map_of raw k of
        None \<Rightarrow> Inl (MissingValueError k)
      | Some (JInt i) \<Rightarrow> Inr i
      | Some (JBool b) \<Rightarrow> Inr (if b then 1 else 0)
      | Some _ \<Rightarrow> Inl (WrongTypeError k))"

definition field_bool :: "pydict \<Rightarrow> string \<Rightarrow> error + bool" where
  "field_bool raw k =
     (case map_of raw k of
        None \<Rightarrow> Inl (MissingValueError k)
      | Some (JBool b) \<Rightarrow> Inr b
      | Some _ \<Rightarrow> Inl (WrongTypeError k))"

text \<open>The type hook \<^verbatim>\<open>datetime: isoparse\<close>.\<close>

definition hook_datetime :: "env \<Rightarrow> string \<Rightarrow> json \<Rightarrow> error + datetime" where
  "hook_datetime E k v =
     (case v of
        JStr s \<Rightarrow> (case isoparse E s of None \<Rightarrow> Inl (TypeHookError k) | Some t \<Rightarrow> Inr t)
      | _ \<Rightarrow> Inl (TypeHookError k))"

definition field_datetime :: "env \<Rightarrow> pydict \<Rightarrow> string \<Rightarrow> error + datetime" where
  "field_datetime E raw k =
     (case map_of raw k of
        None \<Rightarrow> Inl (MissingValueError k)
      | Some v \<Rightarrow> hook_datetime E k v)"

definition field_opt_datetime :: "env \<Rightarrow> pydict \<Rightarrow> string \<Rightarrow> error + datetime option" where
  "field_opt_datetime E raw k =
     (case map_of raw k of
        None \<Rightarrow> Inr None
      | Some JNull \<Rightarrow> Inr None
      | Some v \<Rightarrow> ebind (hook_datetime E k v) (\<lambda>t. Inr (Some t)))"

text \<open>The type hook \<^verbatim>\<open>ParseResult: urlparse\<close>.\<close>

definition field_uri :: "env \<Rightarrow> pydict \<Rightarrow> string \<Rightarrow> error + ParseResult" where
  "field_uri E raw k =
     (case map_of raw k of
        None \<Rightarrow> Inl (MissingValueError k)
      | Some (JStr s) \<Rightarrow> Inr (urlparse E s)
      | Some _ \<Rightarrow> Inl (TypeHookError k))"

text \<open>\<^verbatim>\<open>List[str]\<close>: a list all of whose items are strings.\<close>

fun str_items :: "json list \<Rightarrow> string list option" where
  "str_items [] = Some []"
| "str_items (JStr s # vs) = (case str_items vs of None \<Rightarrow> None | Some ss \<Rightarrow> Some (s # ss))"
| "str_items (v # vs) = None"

definition field_str_list :: "pydict \<Rightarrow> string \<Rightarrow> error + string list" where
  "field_str_list raw k =
     (case map_of raw k of
        None \<Rightarrow> Inl (MissingValueError k)
      | Some (JArr vs) \<Rightarrow>
          (case str_items vs of None \<Rightarrow> Inl (WrongTypeError k) | Some ss \<Rightarrow> Inr ss)
      | Some _ \<Rightarrow> Inl (WrongTypeError k))"

text \<open>The cast \<^verbatim>\<open>RecordType(data)\<close>; the constructor raises \<^verbatim>\<open>ValueError\<close> on
  every value that is not the value of a member.\<close>

definition field_RecordType :: "pydict \<Rightarrow> string \<Rightarrow> error + RecordType" where
  "field_RecordType raw k =
     (case map_of raw k of
        None \<Rightarrow> Inl (MissingValueError k)
      | Some (JStr s) \<Rightarrow>
          (case RecordType_of s of
             None \<Rightarrow> Inl (EnumValueError ''RecordType'' (JStr s))
           | Some t \<Rightarrow> Inr t)
      | Some v \<Rightarrow> Inl (EnumValueError ''RecordType'' v))"

definition from_dict_NeosRecord :: "env \<Rightarrow> pydict \<Rightarrow> error + NeosRecord" where
  "from_dict_NeosRecord E raw =
     ebind (field_str raw ''id'') (\<lambda>v1.
     ebind (field_int raw ''globalVersion'') (\<lambda>v2.
     ebind (field_int raw ''localVersion'') (\<lambda>v3.
     ebind (field_opt_str raw ''lastModifyingUserId'') (\<lambda>v4.
     ebind (field_str raw ''name'') (\<lambda>v5.
     ebind (field_RecordType raw ''recordType'') (\<lambda>v6.
     ebind (field_opt_str raw ''path'') (\<lambda>v7.
     ebind (field_bool raw ''isPublic'') (\<lambda>v8.
     ebind (field_bool raw ''isForPatrons'') (\<lambda>v9.
     ebind (field_bool raw ''isListed'') (\<lambda>v10.
     ebind (field_bool raw ''isDeleted'') (\<lambda>v11.
     ebind (field_datetime E raw ''lastModificationTime'') (\<lambda>v12.
     ebind (field_int raw ''visits'') (\<lambda>v13.
     ebind (field_int raw ''rating'') (\<lambda>v14.
     ebind (field_str raw ''ownerId'') (\<lambda>v15.
     Inr \<lparr>id' = v1, globalVersion = v2, localVersion = v3, lastModifyingUserId = v4,
          name = v5, recordType = v6, NeosRecord.path = v7, isPublic = v8,
          isForPatrons = v9, isListed = v10, isDeleted = v11,
          lastModificationTime = v12, visits = v13, rating = v14,
          NeosRecord.ownerId = v15\<rparr>)))))))))))))))"

text \<open>
  A subclass lists the fields of \<^verbatim>\<open>NeosRecord\<close> first and its own after them, so
  decoding into it reads the inherited fields exactly as above and then the added ones.
\<close>

definition from_dict_NeosLink :: "env \<Rightarrow> pydict \<Rightarrow> error + NeosLink" where
  "from_dict_NeosLink E raw =
     ebind (from_dict_NeosRecord E raw) (\<lambda>b.
     ebind (field_uri E raw ''assetUri'') (\<lambda>v16.
     Inr (NeosRecord.extend b (NeosLink.fields v16))))"

definition from_dict_NeosDirectory :: "env \<Rightarrow> pydict \<Rightarrow> error + NeosDirectory" where
  "from_dict_NeosDirectory E raw =
     ebind (from_dict_NeosRecord E raw) (\<lambda>b.
     ebind (field_opt_str raw ''lastModifyingMachineId'') (\<lambda>v16.
     ebind (field_str raw ''ownerName'') (\<lambda>v17.
     ebind (field_str_list raw ''tags'') (\<lambda>v18.
     ebind (field_opt_datetime E raw ''creationTime'') (\<lambda>v19.
     Inr (NeosRecord.extend b (NeosDirectory.fields v16 v17 v18 v19)))))))"

definition from_dict_NeosObject :: "env \<Rightarrow> pydict \<Rightarrow> error + NeosObject" where
  "from_dict_NeosObject E raw =
     ebind (from_dict_NeosRecord E raw) (\<lambda>b.
     ebind (field_str raw ''assetUri'') (\<lambda>v16.
     ebind (field_str raw ''lastModifyingMachineId'') (\<lambda>v17.
     ebind (field_str raw ''ownerName'') (\<lambda>v18.
     ebind (field_str_list raw ''tags'') (\<lambda>v19.
     ebind (field_datetime E raw ''creationTime'') (\<lambda>v20.
     Inr (NeosRecord.extend b (NeosObject.fields v16 v17 v18 v19 v20))))))))"

text \<open>\<^verbatim>\<open>dacite.from_dict(cls, raw, DACITE_CONFIG)\<close> for a class of the table.\<close>

fun from_dict :: "env \<Rightarrow> record_class \<Rightarrow> pydict \<Rightarrow> error + record_obj" where
  "from_dict E C_NeosDirectory raw = ebind (from_dict_NeosDirectory E raw) (\<lambda>x. Inr (DirectoryObj x))"
| "from_dict E C_NeosLink raw = ebind (from_dict_NeosLink E raw) (\<lambda>x. Inr (LinkObj x))"
| "from_dict E C_NeosObject raw = ebind (from_dict_NeosObject E raw) (\<lambda>x. Inr (ObjectObj x))"
| "from_dict E C_NeosWorld raw = ebind (from_dict_NeosRecord E raw) (\<lambda>x. Inr (WorldObj x))"
| "from_dict E C_NeosTexture raw = ebind (from_dict_NeosRecord E raw) (\<lambda>x. Inr (TextureObj x))"
| "from_dict E C_NeosAudio raw = ebind (from_dict_NeosRecord E raw) (\<lambda>x. Inr (AudioObj x))"

text \<open>
  \<^verbatim>\<open>Client.processRecordList\<close>: each item is decoded as a \<^verbatim>\<open>NeosRecord\<close> to
  read its \<^verbatim>\<open>recordType\<close>, then decoded again into the class the table gives;
  the first item that raises ends the loop with its exception.
\<close>

fun processRecordList :: "env \<Rightarrow> pydict list \<Rightarrow> error + record_obj list" where
  "processRecordList E [] = Inr []"
| "processRecordList E (raw_item # rest) =
     ebind (from_dict_NeosRecord E raw_item) (\<lambda>item.
     ebind (from_dict E (recordTypeMapping (recordType item)) raw_item) (\<lambda>x.
     ebind (processRecordList E rest) (\<lambda>ret. Inr (x # ret))))"

section \<open>The client (client.py)\<close>

text \<open>
  Of the \<^verbatim>\<open>requests.Session\<close> the client holds, the model keeps the headers, a
  dict from header names to values. The client writes and deletes the two names
  \<^verbatim>\<open>User-Agent\<close> and \<^verbatim>\<open>Authorization\<close>, always in this spelling. The
  dataclass gives the field \<^verbatim>\<open>session\<close> one default object for all clients that
  are not passed a session of their own; everything below speaks of a single client and
  the session it holds. Calls of \<^verbatim>\<open>logging\<close> have no effect on the client and are
  left out.
\<close>

record Session =
  headers :: "string \<rightharpoonup> string"

record Client =
  userId :: "string option"
  token :: "string option"
  expire :: "datetime option"
  rememberMe :: bool
  lastUpdate :: "datetime option"
  secretMachineId :: "string option"
  session :: Session

text \<open>
  What the methods change outside the client object: the requests handed to the
  transport so far, the number of clock readings taken, and the file
  \<^verbatim>\<open>auth.token\<close>, which is absent, empty (opened for writing and nothing dumped
  into it) or holds a JSON value; \<^verbatim>\<open>json.load\<close> returns the value
  \<^verbatim>\<open>json.dump\<close> wrote.
\<close>

datatype authfile_content = EmptyFile | JsonFile json

record world =
  sent :: "http_request list"
  ticks :: nat
  authfile :: "authfile_content option"

text \<open>
  A method takes the client and the world and returns its result or its exception
  together with the client and the world as it left them: an exception undoes nothing.
\<close>

type_synonym 'a outcome = "(error + 'a) \<times> Client \<times> world"

definition datetime_now :: "env \<Rightarrow> world \<Rightarrow> datetime \<times> world" where
  "datetime_now E w = (now E (ticks w), w\<lparr>ticks := Suc (ticks w)\<rparr>)"

text \<open>The property \<^verbatim>\<open>Client.headers\<close>.\<close>

definition Client_headers :: "env \<Rightarrow> Client \<Rightarrow> (string \<rightharpoonup> string)" where
  "Client_headers E c =
     (let default = [''User-Agent'' \<mapsto> ''neosvrpy/'' @ version E] in
      if \<not> truthy (userId c) \<or> \<not> truthy (token c) then default
      else default(''Authorization'' \<mapsto> ''neos '' @ str_of (userId c) @ '':'' @ str_of (token c)))"

subsection \<open>Issuing a request\<close>

text \<open>\<^verbatim>\<open>"message" in response\<close> and \<^verbatim>\<open>response["message"]\<close> on a decoded body:
  a key test and a lookup on a dict, a membership test on a list, a substring test on a
  string, and \<^verbatim>\<open>TypeError\<close> where Python has no such operation.\<close>

definition py_in :: "string \<Rightarrow> json \<Rightarrow> error + bool" where
  "py_in k v =
     (case v of
        JObj kvs \<Rightarrow> Inr (map_of kvs k \<noteq> None)
      | JArr vs \<Rightarrow> Inr (JStr k \<in> set vs)
      | JStr s \<Rightarrow> Inr (str_contains s k)
      | _ \<Rightarrow> Inl (TypeError ''argument is not iterable''))"

definition py_getitem :: "json \<Rightarrow> string \<Rightarrow> error + json" where
  "py_getitem v k =
     (case v of
        JObj kvs \<Rightarrow> (case map_of kvs k of None \<Rightarrow> Inl (KeyError k) | Some x \<Rightarrow> Inr x)
      | JArr vs \<Rightarrow> Inl (TypeError ''list indices must be integers or slices, not str'')
      | JStr s \<Rightarrow> Inl (TypeError ''string indices must be integers'')
      | _ \<Rightarrow> Inl (TypeError ''object is not subscriptable''))"

text \<open>Lines 121 to 137: what \<^verbatim>\<open>_request\<close> makes of the response \<^verbatim>\<open>req\<close>. The
  function returns the decoded body, the body text or \<^verbatim>\<open>None\<close>.\<close>

definition classify :: "response \<Rightarrow> error + json" where
  "classify req =
     (if status_code req \<notin> {200, 204} then
        (if str_contains (text' req) ''Invalid credentials''
         then Inl (InvalidCredentials (text' req))
         else if status_code req = 403
         then Inl (InvalidToken (Headers (response.headers req)))
         else Inl (NeosAPIException req None))
      else if status_code req = 200 then
        (case json' req of
           None \<Rightarrow> Inr (JStr (text' req))
         | Some resp \<Rightarrow>
             ebind (py_in ''message'' resp) (\<lambda>found.
               if found
               then ebind (py_getitem resp ''message'') (\<lambda>m. Inl (NeosAPIException req (Some m)))
               else Inr resp))
      else Inr JNull)"

text \<open>\<^verbatim>\<open>if data: args['data'] = data\<close>: an argument that is \<^verbatim>\<open>None\<close> or an empty
  dict is not passed on.\<close>

definition arg :: "pydict option \<Rightarrow> pydict option" where
  "arg d = (case d of None \<Rightarrow> None | Some kvs \<Rightarrow> if kvs = [] then None else Some kvs)"

text \<open>Lines 114 to 117: the dict \<^verbatim>\<open>args\<close>, and with it what the transport is
  handed.\<close>

definition request_args ::
  "env \<Rightarrow> http_verb \<Rightarrow> string \<Rightarrow> pydict option \<Rightarrow> pydict option \<Rightarrow> pydict option
   \<Rightarrow> Client \<Rightarrow> http_request" where
  "request_args E vb pth dat js prms c =
     \<lparr>req_verb = vb, req_url = CLOUDX_NEOS_API E @ pth, req_data = arg dat,
      req_json = arg js, req_params = arg prms,
      req_headers = Session.headers (session c)\<rparr>"

text \<open>Lines 114 to 137: build \<^verbatim>\<open>args\<close>, call the transport, classify.\<close>

definition perform ::
  "env \<Rightarrow> http_verb \<Rightarrow> string \<Rightarrow> pydict option \<Rightarrow> pydict option \<Rightarrow> pydict option
   \<Rightarrow> Client \<times> world \<Rightarrow> json outcome" where
  "perform E vb pth dat js prms s =
     (case s of (c, w) \<Rightarrow>
        let args = request_args E vb pth dat js prms c;
            req = transport E (sent w) args
        in (classify req, c, w\<lparr>sent := sent w @ [args]\<rparr>))"

text \<open>
  \<^verbatim>\<open>Client._request\<close>. The threshold of line 104 is \<open>3600000\<close> seconds. The call
  of line 105 is a call of the function itself, with \<^verbatim>\<open>ignoreUpdate=True\<close>.
\<close>

function request ::
  "env \<Rightarrow> http_verb \<Rightarrow> string \<Rightarrow> pydict option \<Rightarrow> pydict option \<Rightarrow> pydict option \<Rightarrow> bool
   \<Rightarrow> Client \<times> world \<Rightarrow> json outcome" where
  "request E vb pth dat js prms ignoreUpdate s =
     (case s of (c, w) \<Rightarrow>
        if lastUpdate c \<noteq> None \<and> \<not> ignoreUpdate then
          (case datetime_now E w of (t, w1) \<Rightarrow>
             if t - the (lastUpdate c) \<le> 3600000 * 1000000 then
               (case request E Patch ''/userSessions'' None None None True (c, w1) of
                  (Inl e, c2, w2) \<Rightarrow> (Inl e, c2, w2)
                | (Inr r, c2, w2) \<Rightarrow>
                    (case datetime_now E w2 of (t2, w3) \<Rightarrow>
                       perform E vb pth dat js prms (c2\<lparr>lastUpdate := Some t2\<rparr>, w3)))
             else (Inl (InvalidToken (Message ''Token expired'')), c, w1))
        else perform E vb pth dat js prms (c, w))"
  by pat_completeness auto
termination
  by (relation "measure (\<lambda>(E, vb, pth, dat, js, prms, ignoreUpdate, s). if ignoreUpdate then 0 else 1)")
     auto

declare request.simps [simp del]

subsection \<open>Session handling\<close>

text \<open>\<^verbatim>\<open>Client.clean_session\<close>. Deleting a key that the headers of the session do not
  have raises \<^verbatim>\<open>KeyError\<close>, after the five fields were reset.\<close>

definition clean_session :: "env \<Rightarrow> Client \<times> world \<Rightarrow> unit outcome" where
  "clean_session E s =
     (case s of (c, w) \<Rightarrow>
        let c1 = c\<lparr>userId := None, token := None, expire := None,
                   Client.secretMachineId := None, lastUpdate := None\<rparr>
        in if Session.headers (session c1) ''Authorization'' = None
           then (Inl (KeyError ''authorization''), c1, w)
           else (Inr (),
                 c1\<lparr>session := (session c1)\<lparr>Session.headers :=
                        (Session.headers (session c1))(''Authorization'' := None)
                          ++ Client_headers E c1\<rparr>\<rparr>,
                 w))"

text \<open>\<^verbatim>\<open>Client.logout\<close>.\<close>

definition logout :: "env \<Rightarrow> Client \<times> world \<Rightarrow> unit outcome" where
  "logout E s =
     (case s of (c, w) \<Rightarrow>
        (case request E Delete
                (''/userSessions/'' @ str_of (userId c) @ ''/'' @ str_of (token c))
                None None None True (c, w) of
           (Inl e, c1, w1) \<Rightarrow> (Inl e, c1, w1)
         | (Inr r, c1, w1) \<Rightarrow> clean_session E (c1, w1)))"

subsection \<open>The token file\<close>

text \<open>
  The fields \<^verbatim>\<open>token\<close>, \<^verbatim>\<open>userId\<close> and \<^verbatim>\<open>secretMachineId\<close> are
  annotated \<^verbatim>\<open>str\<close> with default \<^verbatim>\<open>None\<close>. Python would store any value
  found in the file; the record \<open>Client\<close> has a place for a string and for
  \<^verbatim>\<open>None\<close> only, and \<open>OutsideModel\<close> marks a file that holds something else under
  one of these keys.
\<close>

datatype 'a typed = OutsideModel | Typed 'a

definition opt_str_of :: "json \<Rightarrow> string option typed" where
  "opt_str_of v = (case v of JNull \<Rightarrow> Typed None | JStr s \<Rightarrow> Typed (Some s) | _ \<Rightarrow> OutsideModel)"

definition json_of :: "string option \<Rightarrow> json" where
  "json_of s = (case s of None \<Rightarrow> JNull | Some v \<Rightarrow> JStr v)"

text \<open>\<^verbatim>\<open>Client.saveToken\<close>. Opening the file with mode \<^verbatim>\<open>w+\<close> empties it before
  the dict is built; \<^verbatim>\<open>self.expire.isoformat()\<close> raises when \<^verbatim>\<open>expire\<close> is
  \<^verbatim>\<open>None\<close>.\<close>

definition saveToken :: "env \<Rightarrow> Client \<times> world \<Rightarrow> unit outcome" where
  "saveToken E s =
     (case s of (c, w) \<Rightarrow>
        (case expire c of
           None \<Rightarrow> (Inl (AttributeError ''isoformat''), c, w\<lparr>authfile := Some EmptyFile\<rparr>)
         | Some e \<Rightarrow>
             (Inr (), c,
              w\<lparr>authfile := Some (JsonFile (JObj
                  [(''userId'', json_of (userId c)),
                   (''expire'', JStr (isoformat E e)),
                   (''token'', json_of (token c)),
                   (''secretMachineId'', json_of (Client.secretMachineId c))]))\<rparr>)))"

text \<open>\<^verbatim>\<open>datetime.fromisoformat(session["expire"])\<close>.\<close>

definition load_expire :: "env \<Rightarrow> json \<Rightarrow> error + datetime" where
  "load_expire E sess =
     ebind (py_getitem sess ''expire'') (\<lambda>v.
       case v of
         JStr x \<Rightarrow> (case fromisoformat E x of
                      None \<Rightarrow> Inl (ValueError ''Invalid isoformat string'')
                    | Some t \<Rightarrow> Inr t)
       | _ \<Rightarrow> Inl (TypeError ''fromisoformat: argument must be str''))"

text \<open>\<^verbatim>\<open>session[key]\<close> for a field of the client.\<close>

definition load_str :: "json \<Rightarrow> string \<Rightarrow> (error + string option) typed" where
  "load_str sess k =
     (case py_getitem sess k of
        Inl e \<Rightarrow> Typed (Inl e)
      | Inr v \<Rightarrow> (case opt_str_of v of OutsideModel \<Rightarrow> OutsideModel | Typed x \<Rightarrow> Typed (Inr x)))"

text \<open>\<^verbatim>\<open>Client.loadToken\<close>. The assignments are made one by one, so a key missing
  from the file leaves the earlier ones done.\<close>

definition loadToken :: "env \<Rightarrow> Client \<times> world \<Rightarrow> unit outcome typed" where
  "loadToken E s =
     (case s of (c, w) \<Rightarrow>
        (case authfile w of
           None \<Rightarrow> Typed (Inl NoTokenError, c, w)
         | Some EmptyFile \<Rightarrow> Typed (Inl JSONDecodeError, c, w)
         | Some (JsonFile sess) \<Rightarrow>
             (case load_expire E sess of
                Inl e \<Rightarrow> Typed (Inl e, c, w)
              | Inr exp \<Rightarrow>
                  (case datetime_now E w of (t, w1) \<Rightarrow>
                     if t < exp then
                       (case load_str sess ''token'' of
                          OutsideModel \<Rightarrow> OutsideModel
                        | Typed (Inl e) \<Rightarrow> Typed (Inl e, c, w1)
                        | Typed (Inr tok) \<Rightarrow>
                            (case load_str sess ''userId'' of
                               OutsideModel \<Rightarrow> OutsideModel
                             | Typed (Inl e) \<Rightarrow> Typed (Inl e, c\<lparr>token := tok\<rparr>, w1)
                             | Typed (Inr uid) \<Rightarrow>
                                 (case load_str sess ''secretMachineId'' of
                                    OutsideModel \<Rightarrow> OutsideModel
                                  | Typed (Inl e) \<Rightarrow>
                                      Typed (Inl e,
                                             c\<lparr>token := tok, userId := uid, expire := Some exp\<rparr>,
                                             w1)
                                  | Typed (Inr smid) \<Rightarrow>
                                      (let c1 = c\<lparr>token := tok, userId := uid,
                                                  expire := Some exp,
                                                  Client.secretMachineId := smid\<rparr>
                                       in Typed (Inr (),
                                            c1\<lparr>session := (session c1)\<lparr>Session.headers :=
                                                  Session.headers (session c1)
                                                    ++ Client_headers E c1\<rparr>\<rparr>,
                                            w1)))))
                     else Typed (Inl NoTokenError, c, w1)))))"

subsection \<open>Records and messages\<close>

text \<open>\<^verbatim>\<open>dacite.from_dict(NeosDirectory, response, DACITE_CONFIG)\<close> on what
  \<^verbatim>\<open>_request\<close> returned. On a value that is not a dict the first field,
  \<^verbatim>\<open>id\<close>, already fails: \<^verbatim>\<open>"id" in response\<close> is false or raises, or the
  lookup that follows it raises.\<close>

definition decode_NeosDirectory :: "env \<Rightarrow> json \<Rightarrow> error + NeosDirectory" where
  "decode_NeosDirectory E resp =
     (case resp of
        JObj raw \<Rightarrow> from_dict_NeosDirectory E raw
      | _ \<Rightarrow> ebind (py_in ''id'' resp) (\<lambda>found.
               if found then ebind (py_getitem resp ''id'') (\<lambda>v. Inl (WrongTypeError ''id''))
               else Inl (MissingValueError ''id'')))"

text \<open>\<^verbatim>\<open>Client.resolveLink\<close>. The unpacking of line 254 needs exactly three
  parts.\<close>

definition resolveLink :: "env \<Rightarrow> NeosLink \<Rightarrow> Client \<times> world \<Rightarrow> NeosDirectory outcome" where
  "resolveLink E link s =
     (case s of (c, w) \<Rightarrow>
        (case split (ParseResult.path (NeosLink.assetUri link)) CHR ''/'' of
           [u, user, record] \<Rightarrow>
             (case request E Get (''/users/'' @ user @ ''/records/'' @ record)
                     None None None False (c, w) of
                (Inl e, c1, w1) \<Rightarrow> (Inl e, c1, w1)
              | (Inr resp, c1, w1) \<Rightarrow> (decode_NeosDirectory E resp, c1, w1))
         | _ \<Rightarrow> (Inl (ValueError ''unpack''), c, w)))"

text \<open>\<^verbatim>\<open>Client.getMessageLegacy\<close>.\<close>

definition getMessageLegacy ::
  "env \<Rightarrow> string option \<Rightarrow> int \<Rightarrow> string option \<Rightarrow> bool \<Rightarrow> Client \<times> world \<Rightarrow> json outcome" where
  "getMessageLegacy E fromTime maxItems user unreadOnly s =
     (case s of (c, w) \<Rightarrow>
        if truthy fromTime then (Inl (ValueError ''fromTime is not yet implemented''), c, w)
        else
          request E Get (''/users/'' @ str_of (userId c) @ ''/messages'') None None
            (Some ([(''maxItems'', JInt maxItems), (''unreadOnly'', JBool unreadOnly)]
                   @ (if truthy user then [(''user'', JStr (str_of user))] else [])))
            False (c, w))"

section \<open>Payloads as the server sends them\<close>

text \<open>
  A payload is well formed for \<^verbatim>\<open>NeosRecord\<close> when every field without a default
  is present with a JSON value of the annotated kind: a string for \<^verbatim>\<open>str\<close>, an
  integer for \<^verbatim>\<open>int\<close>, a boolean for \<^verbatim>\<open>bool\<close>, a string that
  \<^verbatim>\<open>isoparse\<close> accepts for \<^verbatim>\<open>datetime\<close>, and a string, \<^verbatim>\<open>null\<close> or
  nothing for \<^verbatim>\<open>Optional[str]\<close>. These predicates look at the payload only.
\<close>

definition has_str :: "pydict \<Rightarrow> string \<Rightarrow> bool" where
  "has_str raw k = (case map_of raw k of Some (JStr s) \<Rightarrow> True | _ \<Rightarrow> False)"

definition has_int :: "pydict \<Rightarrow> string \<Rightarrow> bool" where
  "has_int raw k = (case map_of raw k of Some (JInt i) \<Rightarrow> True | _ \<Rightarrow> False)"

definition has_bool :: "pydict \<Rightarrow> string \<Rightarrow> bool" where
  "has_bool raw k = (case map_of raw k of Some (JBool b) \<Rightarrow> True | _ \<Rightarrow> False)"

definition has_opt_str :: "pydict \<Rightarrow> string \<Rightarrow> bool" where
  "has_opt_str raw k =
     (case map_of raw k of None \<Rightarrow> True | Some JNull \<Rightarrow> True | Some (JStr s) \<Rightarrow> True
      | _ \<Rightarrow> False)"

definition has_time :: "env \<Rightarrow> pydict \<Rightarrow> string \<Rightarrow> bool" where
  "has_time E raw k =
     (case map_of raw k of Some (JStr s) \<Rightarrow> isoparse E s \<noteq> None | _ \<Rightarrow> False)"

definition has_opt_time :: "env \<Rightarrow> pydict \<Rightarrow> string \<Rightarrow> bool" where
  "has_opt_time E raw k =
     (case map_of raw k of None \<Rightarrow> True | Some JNull \<Rightarrow> True
      | Some (JStr s) \<Rightarrow> isoparse E s \<noteq> None | _ \<Rightarrow> False)"

definition has_str_list :: "pydict \<Rightarrow> string \<Rightarrow> bool" where
  "has_str_list raw k =
     (case map_of raw k of Some (JArr vs) \<Rightarrow> str_items vs \<noteq> None | _ \<Rightarrow> False)"

definition wf_base :: "env \<Rightarrow> pydict \<Rightarrow> bool" where
  "wf_base E raw \<longleftrightarrow>
     has_str raw ''id'' \<and> has_int raw ''globalVersion'' \<and> has_int raw ''localVersion'' \<and>
     has_opt_str raw ''lastModifyingUserId'' \<and> has_str raw ''name'' \<and>
     has_opt_str raw ''path'' \<and> has_bool raw ''isPublic'' \<and> has_bool raw ''isForPatrons'' \<and>
     has_bool raw ''isListed'' \<and> has_bool raw ''isDeleted'' \<and>
     has_time E raw ''lastModificationTime'' \<and> has_int raw ''visits'' \<and>
     has_int raw ''rating'' \<and> has_str raw ''ownerId''"

text \<open>The record type a payload names, when it is one of the six.\<close>

definition known_type :: "pydict \<Rightarrow> RecordType option" where
  "known_type raw =
     (case map_of raw ''recordType'' of Some (JStr s) \<Rightarrow> RecordType_of s | _ \<Rightarrow> None)"

text \<open>The fields a derived class adds.\<close>

fun wf_added :: "env \<Rightarrow> RecordType \<Rightarrow> pydict \<Rightarrow> bool" where
  "wf_added E LINK raw = has_str raw ''assetUri''"
| "wf_added E DIRECTORY raw \<longleftrightarrow>
     has_opt_str raw ''lastModifyingMachineId'' \<and> has_str raw ''ownerName'' \<and>
     has_str_list raw ''tags'' \<and> has_opt_time E raw ''creationTime''"
| "wf_added E OBJECT raw \<longleftrightarrow>
     has_str raw ''assetUri'' \<and> has_str raw ''lastModifyingMachineId'' \<and>
     has_str raw ''ownerName'' \<and> has_str_list raw ''tags'' \<and> has_time E raw ''creationTime''"
| "wf_added E WORLD raw = True"
| "wf_added E TEXTURE raw = True"
| "wf_added E AUDIO raw = True"

definition wf_payload :: "env \<Rightarrow> pydict \<Rightarrow> bool" where
  "wf_payload E raw \<longleftrightarrow>
     wf_base E raw \<and> (case known_type raw of None \<Rightarrow> False | Some t \<Rightarrow> wf_added E t raw)"

text \<open>A payload that has a \<^verbatim>\<open>recordType\<close>, but none of the six.\<close>

definition unknown_payload :: "env \<Rightarrow> pydict \<Rightarrow> bool" where
  "unknown_payload E raw \<longleftrightarrow>
     wf_base E raw \<and> map_of raw ''recordType'' \<noteq> None \<and> known_type raw = None"

text \<open>The value a payload gives for a field, by the kind of the field.\<close>

definition str_at :: "pydict \<Rightarrow> string \<Rightarrow> string" where
  "str_at raw k = (case map_of raw k of Some (JStr s) \<Rightarrow> s | _ \<Rightarrow> [])"

definition int_at :: "pydict \<Rightarrow> string \<Rightarrow> int" where
  "int_at raw k = (case map_of raw k of Some (JInt i) \<Rightarrow> i | _ \<Rightarrow> 0)"

definition bool_at :: "pydict \<Rightarrow> string \<Rightarrow> bool" where
  "bool_at raw k = (case map_of raw k of Some (JBool b) \<Rightarrow> b | _ \<Rightarrow> False)"

definition opt_str_at :: "pydict \<Rightarrow> string \<Rightarrow> string option" where
  "opt_str_at raw k = (case map_of raw k of Some (JStr s) \<Rightarrow> Some s | _ \<Rightarrow> None)"

definition time_at :: "env \<Rightarrow> pydict \<Rightarrow> string \<Rightarrow> datetime" where
  "time_at E raw k =
     (case map_of raw k of
        Some (JStr s) \<Rightarrow> (case isoparse E s of Some t \<Rightarrow> t | None \<Rightarrow> 0)
      | _ \<Rightarrow> 0)"

text \<open>The fields of \<^verbatim>\<open>NeosRecord\<close> as the payload gives them.\<close>

definition payload_base :: "env \<Rightarrow> pydict \<Rightarrow> RecordType \<Rightarrow> NeosRecord" where
  "payload_base E raw t =
     \<lparr>id' = str_at raw ''id'', globalVersion = int_at raw ''globalVersion'',
      localVersion = int_at raw ''localVersion'',
      lastModifyingUserId = opt_str_at raw ''lastModifyingUserId'',
      name = str_at raw ''name'', recordType = t, NeosRecord.path = opt_str_at raw ''path'',
      isPublic = bool_at raw ''isPublic'', isForPatrons = bool_at raw ''isForPatrons'',
      isListed = bool_at raw ''isListed'', isDeleted = bool_at raw ''isDeleted'',
      lastModificationTime = time_at E raw ''lastModificationTime'',
      visits = int_at raw ''visits'', rating = int_at raw ''rating'',
      NeosRecord.ownerId = str_at raw ''ownerId''\<rparr>"

section \<open>Sample surroundings, clients and payloads\<close>

text \<open>
  Concrete values on which the theorems below are instantiated: surroundings whose
  server answers by a given function of the request, a client as
  \<^verbatim>\<open>Client()\<close> makes it, a client after a login, and a record payload of a given
  \<^verbatim>\<open>recordType\<close>.
\<close>

definition sample_env :: "(http_request \<Rightarrow> response) \<Rightarrow> env" where
  "sample_env server =
     \<lparr>version = ''1.3.1'', CLOUDX_NEOS_API = ''https://api.neos.com/api'',
      isoparse = (\<lambda>s. if s = [] then None else Some (int (length s))),
      urlparse = (\<lambda>s. \<lparr>scheme = [], netloc = [], ParseResult.path = s, params = [],
                        query = [], fragment = []\<rparr>),
      isoformat = (\<lambda>t. replicate (nat t) CHR ''T''),
      fromisoformat = (\<lambda>s. Some (int (length s))),
      transport = (\<lambda>earlier rq. server rq),
      now = (\<lambda>n. 50 + int n)\<rparr>"

definition answer :: "int \<Rightarrow> string \<Rightarrow> json option \<Rightarrow> response" where
  "answer st body js = \<lparr>status_code = st, text' = body, response.headers = [], json' = js\<rparr>"

definition new_client :: Client where
  "new_client =
     \<lparr>userId = None, token = None, expire = None, Client.rememberMe = False,
      lastUpdate = None, Client.secretMachineId = None,
      session = \<lparr>Session.headers = [''User-Agent'' \<mapsto> ''python-requests'']\<rparr>\<rparr>"

definition known_client :: Client where
  "known_client =
     \<lparr>userId = Some ''U-abc'', token = Some ''tok'', expire = Some 90,
      Client.rememberMe = False, lastUpdate = Some 40, Client.secretMachineId = Some ''m1'',
      session = \<lparr>Session.headers = [''User-Agent'' \<mapsto> ''neosvrpy/1.3.1'',
                                      ''Authorization'' \<mapsto> ''neos U-abc:tok'']\<rparr>\<rparr>"

definition new_world :: world where
  "new_world = \<lparr>sent = [], ticks = 0, authfile = None\<rparr>"

definition sample_record :: "string \<Rightarrow> pydict" where
  "sample_record ty =
     [(''id'', JStr ''R-1''), (''globalVersion'', JInt 3), (''localVersion'', JInt 1),
      (''lastModifyingUserId'', JNull), (''name'', JStr ''Foo''), (''recordType'', JStr ty),
      (''path'', JStr ''Inventory''), (''isPublic'', JBool False),
      (''isForPatrons'', JBool False), (''isListed'', JBool True),
      (''isDeleted'', JBool False), (''lastModificationTime'', JStr ''2021-01-01''),
      (''visits'', JInt 0), (''rating'', JInt 5), (''ownerId'', JStr ''U-abc''),
      (''assetUri'', JStr ''/U-abc/R-def''), (''ownerName'', JStr ''abc''),
      (''tags'', JArr [JStr ''a'']), (''creationTime'', JNull)]"

definition sample_link :: NeosLink where
  "sample_link =
     \<lparr>id' = ''R-1'', globalVersion = 3, localVersion = 1, lastModifyingUserId = None,
      name = ''Foo'', recordType = LINK, NeosRecord.path = Some ''Inventory'',
      isPublic = False, isForPatrons = False, isListed = True, isDeleted = False,
      lastModificationTime = 10, visits = 0, rating = 5, NeosRecord.ownerId = ''U-abc'',
      NeosLink.assetUri =
        \<lparr>scheme = ''neosrec'', netloc = [], ParseResult.path = ''/U-abc/R-def'',
         params = [], query = [], fragment = []\<rparr>\<rparr>"

section \<open>Construction of LoginDetails\<close>

text \<open>
  Claim C7. Constructing a \<^verbatim>\<open>LoginDetails\<close> raises \<^verbatim>\<open>NeosException\<close> (the
  validation error) whenever \<^verbatim>\<open>ownerId\<close>, \<^verbatim>\<open>username\<close> and \<^verbatim>\<open>email\<close>
  are all absent, and whenever \<^verbatim>\<open>password\<close> is absent, whatever the identity
  fields are; with at least one identity field and a password it returns the instance
  holding exactly the given fields. A field is absent in the sense of the source's
  \<^verbatim>\<open>not\<close>: it is \<^verbatim>\<open>None\<close> or the empty string (\<open>truthy None\<close> is false). The
  caller gets either the exception or an instance, and every instance it can get has an
  identity field and a password.
\<close>

theorem LoginDetails_init_validation:
  "(\<not> truthy own \<and> \<not> truthy usr \<and> \<not> truthy eml \<longrightarrow>
      LoginDetails_init own usr eml pwd smid rem =
        Inl (NeosException ''Either an ownerId, an username or an email is needed'')) \<and>
   (\<not> truthy pwd \<longrightarrow>
      (\<exists>msg. LoginDetails_init own usr eml pwd smid rem = Inl (NeosException msg))) \<and>
   ((truthy own \<or> truthy usr \<or> truthy eml) \<and> truthy pwd \<longrightarrow>
      LoginDetails_init own usr eml pwd smid rem =
        Inr \<lparr>LoginDetails.ownerId = own, username = usr, email = eml, password = pwd,
             LoginDetails.secretMachineId = smid, LoginDetails.rememberMe = rem\<rparr>) \<and>
   (\<forall>d. LoginDetails_init own usr eml pwd smid rem = Inr d \<longrightarrow>
      (truthy (LoginDetails.ownerId d) \<or> truthy (username d) \<or> truthy (email d)) \<and>
      truthy (password d))"
  by (auto simp: LoginDetails_init_def)

theorem LoginDetails_init_validation_witness:
  "LoginDetails_init None None None (Some ''pw'') ''m1'' False =
     Inl (NeosException ''Either an ownerId, an username or an email is needed'') \<and>
   (\<exists>msg. LoginDetails_init None (Some ''bob'') None None ''m1'' False
            = Inl (NeosException msg)) \<and>
   LoginDetails_init None (Some ''bob'') None (Some ''pw'') ''m1'' False =
     Inr \<lparr>LoginDetails.ownerId = None, username = Some ''bob'', email = None,
          password = Some ''pw'', LoginDetails.secretMachineId = ''m1'',
          LoginDetails.rememberMe = False\<rparr> \<and>
   truthy (password \<lparr>LoginDetails.ownerId = None, username = Some ''bob'', email = None,
          password = Some ''pw'', LoginDetails.secretMachineId = ''m1'',
          LoginDetails.rememberMe = False\<rparr>)"
  using LoginDetails_init_validation [of None None None "Some ''pw''" "''m1''" False]
        LoginDetails_init_validation [of None "Some ''bob''" None None "''m1''" False]
        LoginDetails_init_validation [of None "Some ''bob''" None "Some ''pw''" "''m1''" False]
  by (simp add: truthy_def)

section \<open>Decoding a list of records\<close>

text \<open>On a well-formed payload each field reader returns the value of the payload.\<close>

lemma field_str_wf: "has_str raw k \<Longrightarrow> field_str raw k = Inr (str_at raw k)"
  by (auto simp: has_str_def field_str_def str_at_def split: option.splits json.splits)

lemma field_int_wf: "has_int raw k \<Longrightarrow> field_int raw k = Inr (int_at raw k)"
  by (auto simp: has_int_def field_int_def int_at_def split: option.splits json.splits)

lemma field_bool_wf: "has_bool raw k \<Longrightarrow> field_bool raw k = Inr (bool_at raw k)"
  by (auto simp: has_bool_def field_bool_def bool_at_def split: option.splits json.splits)

lemma field_opt_str_wf: "has_opt_str raw k \<Longrightarrow> field_opt_str raw k = Inr (opt_str_at raw k)"
  by (auto simp: has_opt_str_def field_opt_str_def opt_str_at_def split: option.splits json.splits)

lemma field_datetime_wf: "has_time E raw k \<Longrightarrow> field_datetime E raw k = Inr (time_at E raw k)"
  by (auto simp: has_time_def field_datetime_def hook_datetime_def time_at_def
           split: option.splits json.splits)

lemma field_RecordType_known:
  "known_type raw = Some t \<Longrightarrow> field_RecordType raw ''recordType'' = Inr t"
  by (auto simp: known_type_def field_RecordType_def split: option.splits json.splits)

lemma field_RecordType_unknown:
  "map_of raw ''recordType'' = Some v \<Longrightarrow> known_type raw = None \<Longrightarrow>
   field_RecordType raw ''recordType'' = Inl (EnumValueError ''RecordType'' v)"
  by (auto simp: known_type_def field_RecordType_def split: option.splits json.splits)

lemma from_dict_NeosRecord_wf:
  "wf_base E raw \<Longrightarrow> known_type raw = Some t \<Longrightarrow>
   from_dict_NeosRecord E raw = Inr (payload_base E raw t)"
  by (simp add: wf_base_def from_dict_NeosRecord_def payload_base_def ebind_def
        field_str_wf field_int_wf field_bool_wf field_opt_str_wf field_datetime_wf
        field_RecordType_known)

lemma from_dict_NeosRecord_unknown:
  "wf_base E raw \<Longrightarrow> map_of raw ''recordType'' = Some v \<Longrightarrow> known_type raw = None \<Longrightarrow>
   from_dict_NeosRecord E raw = Inl (EnumValueError ''RecordType'' v)"
  by (simp add: wf_base_def from_dict_NeosRecord_def ebind_def
        field_str_wf field_int_wf field_bool_wf field_opt_str_wf field_datetime_wf
        field_RecordType_unknown)

lemma truncate_extend: "NeosRecord.truncate (NeosRecord.extend b m) = b"
  by (simp add: NeosRecord.truncate_def NeosRecord.extend_def)

lemma from_dict_class_base:
  "from_dict E cls raw = Inr x \<Longrightarrow>
   class_of x = cls \<and> from_dict_NeosRecord E raw = Inr (base_of x)"
  by (cases cls)
     (auto simp: ebind_def from_dict_NeosDirectory_def from_dict_NeosLink_def
           from_dict_NeosObject_def truncate_extend split: sum.splits)

lemma field_str_list_wf: "has_str_list raw k \<Longrightarrow> \<exists>ss. field_str_list raw k = Inr ss"
  by (auto simp: has_str_list_def field_str_list_def split: option.splits json.splits)

lemma field_opt_datetime_wf: "has_opt_time E raw k \<Longrightarrow> \<exists>t. field_opt_datetime E raw k = Inr t"
  by (auto simp: has_opt_time_def field_opt_datetime_def hook_datetime_def ebind_def
           split: option.splits json.splits)

lemma from_dict_wf:
  assumes "wf_base E raw" "known_type raw = Some t" "wf_added E t raw"
  shows "\<exists>x. from_dict E (recordTypeMapping t) raw = Inr x"
proof -
  note b = from_dict_NeosRecord_wf [OF assms(1,2)]
  show ?thesis
  proof (cases t)
    case DIRECTORY
    with assms(3) obtain ss ct where
      "field_str_list raw ''tags'' = Inr ss" "field_opt_datetime E raw ''creationTime'' = Inr ct"
      using field_str_list_wf field_opt_datetime_wf by (metis wf_added.simps(2))
    with DIRECTORY assms(3) b show ?thesis
      by (simp add: from_dict_NeosDirectory_def ebind_def field_opt_str_wf field_str_wf)
  next
    case OBJECT
    with assms(3) obtain ss where "field_str_list raw ''tags'' = Inr ss"
      using field_str_list_wf by (metis wf_added.simps(3))
    with OBJECT assms(3) b show ?thesis
      by (simp add: from_dict_NeosObject_def ebind_def field_datetime_wf field_str_wf)
  next
    case LINK
    with assms(3) b show ?thesis
      by (auto simp: from_dict_NeosLink_def ebind_def field_uri_def has_str_def
               split: option.splits json.splits)
  qed (use b in \<open>simp_all add: ebind_def\<close>)
qed

lemma processRecordList_wf:
  "list_all (wf_payload E) data \<Longrightarrow>
   \<exists>recs. processRecordList E data = Inr recs \<and>
      list_all2 (\<lambda>raw x. \<exists>t. known_type raw = Some t \<and> class_of x = recordTypeMapping t \<and>
                         base_of x = payload_base E raw t) data recs"
proof (induction data)
  case Nil
  then show ?case by simp
next
  case (Cons raw rest)
  from Cons.prems obtain t where t: "wf_base E raw" "known_type raw = Some t" "wf_added E t raw"
    by (auto simp: wf_payload_def split: option.splits)
  from from_dict_wf [OF t] obtain x where x: "from_dict E (recordTypeMapping t) raw = Inr x" ..
  note b = from_dict_NeosRecord_wf [OF t(1,2)]
  from from_dict_class_base [OF x] b
  have cx: "class_of x = recordTypeMapping t" "base_of x = payload_base E raw t" by simp_all
  from Cons obtain recs where recs: "processRecordList E rest = Inr recs"
    "list_all2 (\<lambda>raw x. \<exists>t. known_type raw = Some t \<and> class_of x = recordTypeMapping t \<and>
                         base_of x = payload_base E raw t) rest recs"
    by auto
  have "processRecordList E (raw # rest) = Inr (x # recs)"
    using b x recs(1) by (simp add: ebind_def payload_base_def)
  with cx t(2) recs(2) show ?case by auto
qed

lemma processRecordList_unknown:
  "list_all (wf_payload E) pre \<Longrightarrow> unknown_payload E raw \<Longrightarrow>
   \<exists>v. map_of raw ''recordType'' = Some v \<and>
       processRecordList E (pre @ raw # post) = Inl (EnumValueError ''RecordType'' v)"
proof (induction pre)
  case Nil
  then show ?case
    by (auto simp: unknown_payload_def ebind_def dest: from_dict_NeosRecord_unknown)
next
  case (Cons p pre)
  from Cons.prems obtain t where t: "wf_base E p" "known_type p = Some t" "wf_added E t p"
    by (auto simp: wf_payload_def split: option.splits)
  from from_dict_wf [OF t] obtain x where x: "from_dict E (recordTypeMapping t) p = Inr x" ..
  note b = from_dict_NeosRecord_wf [OF t(1,2)]
  from Cons obtain v where "map_of raw ''recordType'' = Some v"
    "processRecordList E (pre @ raw # post) = Inl (EnumValueError ''RecordType'' v)" by auto
  then show ?case using b x by (simp add: ebind_def payload_base_def)
qed


lemma sample_record_wf_base: "wf_base (sample_env srv) (sample_record ty)"
  by (simp add: wf_base_def sample_record_def sample_env_def has_str_def has_int_def
        has_bool_def has_opt_str_def has_time_def)

lemma sample_record_known_type: "known_type (sample_record ty) = RecordType_of ty"
  by (simp add: known_type_def sample_record_def)


section \<open>Classification of a response\<close>

text \<open>With the refresh gate out of the way (\<^verbatim>\<open>lastUpdate\<close> unset, or
  \<^verbatim>\<open>ignoreUpdate\<close> passed), \<^verbatim>\<open>_request\<close> is lines 114 to 137.\<close>

lemma request_bypass:
  "lastUpdate c = None \<or> ignoreUpdate \<Longrightarrow>
   request E vb pth dat js prms ignoreUpdate (c, w) = perform E vb pth dat js prms (c, w)"
  by (subst request.simps) auto

lemma perform_result:
  "perform E vb pth dat js prms (c, w) =
     (classify (transport E (sent w) (request_args E vb pth dat js prms c)), c,
      w\<lparr>sent := sent w @ [request_args E vb pth dat js prms c]\<rparr>)"
  by (simp add: perform_def Let_def)

text \<open>The branch of line 121 is taken by every status other than 200 and 204, also by
  the remaining statuses of the 2xx class.\<close>

lemma classify_not_ok:
  "status_code req \<notin> {200, 204} \<Longrightarrow>
   classify req =
     Inl (if str_contains (text' req) ''Invalid credentials''
          then InvalidCredentials (text' req)
          else if status_code req = 403 then InvalidToken (Headers (response.headers req))
          else NeosAPIException req None)"
  by (simp add: classify_def)

text \<open>
  Claim C2. A response whose status is not a success status (not 2xx) is classified in
  this order: when the body contains \<^verbatim>\<open>Invalid credentials\<close>,
  \<^verbatim>\<open>InvalidCredentials\<close> carrying the body text is raised, whatever the status;
  otherwise status 403 raises \<^verbatim>\<open>InvalidToken\<close> carrying the response headers;
  otherwise \<^verbatim>\<open>NeosAPIException\<close> (the generic API error) carrying the response is
  raised. This is what \<^verbatim>\<open>_request\<close> makes of the response to the call it was
  asked for, and the exception is what the caller of \<^verbatim>\<open>_request\<close> gets.
\<close>

theorem request_error_precedence:
  assumes "\<not> (200 \<le> status_code req \<and> status_code req < 300)"
  shows "classify req =
           Inl (if str_contains (text' req) ''Invalid credentials''
                then InvalidCredentials (text' req)
                else if status_code req = 403
                then InvalidToken (Headers (response.headers req))
                else NeosAPIException req None) \<and>
         ((lastUpdate c = None \<or> ignoreUpdate) \<and>
          transport E (sent w) (request_args E vb pth dat js prms c) = req \<longrightarrow>
            fst (request E vb pth dat js prms ignoreUpdate (c, w)) = classify req)"
proof -
  from assms have "status_code req \<notin> {200, 204}" by auto
  then show ?thesis
    by (auto simp: classify_not_ok request_bypass perform_result)
qed

theorem request_error_precedence_witness:
  "classify (answer 401 ''{\"error\": \"Invalid credentials\"}'' None) =
     Inl (InvalidCredentials ''{\"error\": \"Invalid credentials\"}'') \<and>
   classify (answer 403 ''Forbidden'' None) = Inl (InvalidToken (Headers [])) \<and>
   classify (answer 500 ''Internal Server Error'' None) = Inl (NeosAPIException (answer 500 ''Internal Server Error'' None) None) \<and>
   fst (request (sample_env (\<lambda>rq. answer 403 ''Forbidden'' None)) Get ''/users/U-abc''
          None None None False (new_client, new_world))
     = Inl (InvalidToken (Headers []))"
  using request_error_precedence [of "answer 401 ''{\"error\": \"Invalid credentials\"}'' None"
          new_client False "sample_env (\<lambda>rq. answer 403 ''Forbidden'' None)" new_world Get
          "''/users/U-abc''" None None None]
        request_error_precedence [of "answer 403 ''Forbidden'' None"
          new_client False "sample_env (\<lambda>rq. answer 403 ''Forbidden'' None)" new_world Get
          "''/users/U-abc''" None None None]
        request_error_precedence [of "answer 500 ''Internal Server Error'' None"
          new_client False "sample_env (\<lambda>rq. answer 403 ''Forbidden'' None)" new_world Get
          "''/users/U-abc''" None None None]
  by (simp add: answer_def new_client_def sample_env_def)

section \<open>A response with status 200 or 204\<close>

text \<open>What holds of rules 4 to 7 of the classification: a JSON object with a key
  \<^verbatim>\<open>message\<close> raises \<^verbatim>\<open>NeosAPIException\<close> carrying the value of that key, a
  JSON object without the key and a JSON array none of whose items is the string
  \<^verbatim>\<open>message\<close> are returned, a body that is not JSON is returned as text, and status
  204 returns \<^verbatim>\<open>None\<close>.\<close>

lemma classify_200_message:
  "status_code req = 200 \<Longrightarrow> json' req = Some (JObj kvs) \<Longrightarrow> map_of kvs ''message'' = Some m \<Longrightarrow>
   classify req = Inl (NeosAPIException req (Some m))"
  by (simp add: classify_def py_in_def py_getitem_def ebind_def)

lemma classify_200_object:
  "status_code req = 200 \<Longrightarrow> json' req = Some (JObj kvs) \<Longrightarrow> map_of kvs ''message'' = None \<Longrightarrow>
   classify req = Inr (JObj kvs)"
  by (simp add: classify_def py_in_def ebind_def)

lemma classify_200_array:
  "status_code req = 200 \<Longrightarrow> json' req = Some (JArr vs) \<Longrightarrow> JStr ''message'' \<notin> set vs \<Longrightarrow>
   classify req = Inr (JArr vs)"
  by (simp add: classify_def py_in_def ebind_def)

lemma classify_200_text:
  "status_code req = 200 \<Longrightarrow> json' req = None \<Longrightarrow> classify req = Inr (JStr (text' req))"
  by (simp add: classify_def)

lemma classify_204: "status_code req = 204 \<Longrightarrow> classify req = Inr JNull"
  by (simp add: classify_def)

text \<open>The test \<^verbatim>\<open>"message" in response\<close> of line 131 is applied to whatever
  \<^verbatim>\<open>req.json()\<close> returned. A body that is a JSON number, boolean or
  \<^verbatim>\<open>null\<close> has no such test, and the \<^verbatim>\<open>TypeError\<close> is not caught by the
  handler of line 134.\<close>

lemma classify_200_scalar:
  "status_code req = 200 \<Longrightarrow> json' req = Some v \<Longrightarrow>
   v = JNull \<or> (\<exists>b. v = JBool b) \<or> (\<exists>i. v = JInt i) \<or> (\<exists>x. v = JFloat x) \<Longrightarrow>
   classify req = Inl (TypeError ''argument is not iterable'')"
  by (auto simp: classify_def py_in_def ebind_def)

text \<open>
  Claim C3, at a response with status 200 whose body is the JSON text \<^verbatim>\<open>5\<close>: the
  body is JSON and has no \<^verbatim>\<open>message\<close> field, and \<^verbatim>\<open>_request\<close>, called as
  \<^verbatim>\<open>searchUser\<close> calls it, raises \<^verbatim>\<open>TypeError\<close> instead of returning the
  decoded payload.
\<close>

theorem request_200_scalar_body_raises:
  "request (sample_env (\<lambda>rq. answer 200 ''5'' (Some (JInt 5)))) Get ''/users''
     None None (Some [(''name'', JStr ''bob'')]) False (new_client, new_world)
   = (Inl (TypeError ''argument is not iterable''), new_client,
      new_world\<lparr>sent :=
        [\<lparr>req_verb = Get, req_url = ''https://api.neos.com/api/users'', req_data = None,
          req_json = None, req_params = Some [(''name'', JStr ''bob'')],
          req_headers = [''User-Agent'' \<mapsto> ''python-requests'']\<rparr>]\<rparr>)"
  by (simp add: request_bypass perform_result new_client_def new_world_def sample_env_def
        answer_def request_args_def arg_def classify_def py_in_def ebind_def)

section \<open>The headers of the client\<close>

text \<open>Neither \<^verbatim>\<open>_request\<close> nor the lines it runs read \<^verbatim>\<open>userId\<close> or
  \<^verbatim>\<open>token\<close>: changing them changes nothing but these two fields of the outcome.\<close>

lemma perform_credentials:
  "perform E vb pth dat js prms (c\<lparr>userId := u, token := t\<rparr>, w) =
     (case perform E vb pth dat js prms (c, w) of
        (r, c', w') \<Rightarrow> (r, c'\<lparr>userId := u, token := t\<rparr>, w'))"
  by (simp add: perform_def request_args_def Let_def)

lemma request_credentials:
  "request E vb pth dat js prms ignoreUpdate (c\<lparr>userId := u, token := t\<rparr>, w) =
     (case request E vb pth dat js prms ignoreUpdate (c, w) of
        (r, c', w') \<Rightarrow> (r, c'\<lparr>userId := u, token := t\<rparr>, w'))"
proof (cases "lastUpdate c = None \<or> ignoreUpdate")
  case True
  then show ?thesis by (simp add: request_bypass perform_credentials)
next
  case False
  then obtain lu where lu: "lastUpdate c = Some lu" "\<not> ignoreUpdate" by auto
  obtain t0 w1 where n: "datetime_now E w = (t0, w1)" by (cases "datetime_now E w")
  have ka: "request E Patch ''/userSessions'' None None None True
              (c\<lparr>userId := u, token := t\<rparr>, w1) =
     (case perform E Patch ''/userSessions'' None None None (c, w1) of
        (r, c', w') \<Rightarrow> (r, c'\<lparr>userId := u, token := t\<rparr>, w'))"
    by (simp add: request_bypass perform_credentials)
  have kb: "request E Patch ''/userSessions'' None None None True (c, w1) =
              perform E Patch ''/userSessions'' None None None (c, w1)"
    by (simp add: request_bypass)
  show ?thesis
    apply (subst request.simps)
    apply (subst (2) request.simps)
    apply (simp add: lu n ka kb perform_result)
    apply (simp split: sum.splits prod.splits add: perform_result request_args_def)
    done
qed

text \<open>
  Claim C10. When \<^verbatim>\<open>userId\<close> or \<^verbatim>\<open>token\<close> is unset (\<^verbatim>\<open>None\<close> or empty,
  the source's \<^verbatim>\<open>not\<close>), the property \<^verbatim>\<open>headers\<close> returns the dict with the
  single entry \<^verbatim>\<open>User-Agent\<close>; it has an entry \<^verbatim>\<open>Authorization\<close> exactly when
  both are set, and the entry is then \<^verbatim>\<open>neos {userId}:{token}\<close>. A request does
  not fail locally for want of credentials: the outcome of \<^verbatim>\<open>_request\<close> does not
  depend on the two fields, and on a client whose \<^verbatim>\<open>lastUpdate\<close> is unset (before
  a login, after \<^verbatim>\<open>clean_session\<close>) the call goes to the transport with the
  headers of the session as they are, so without \<^verbatim>\<open>Authorization\<close> when the
  session has none.
\<close>

theorem headers_authorization_iff_credentials:
  "(\<not> truthy (userId c) \<or> \<not> truthy (token c) \<longrightarrow>
      Client_headers E c = [''User-Agent'' \<mapsto> ''neosvrpy/'' @ version E]) \<and>
   (Client_headers E c ''Authorization'' \<noteq> None \<longleftrightarrow> truthy (userId c) \<and> truthy (token c)) \<and>
   (\<forall>u t. userId c = Some u \<and> token c = Some t \<and> u \<noteq> [] \<and> t \<noteq> [] \<longrightarrow>
      Client_headers E c ''Authorization'' = Some (''neos '' @ u @ '':'' @ t)) \<and>
   (\<forall>u t. request E vb pth dat js prms ignoreUpdate (c\<lparr>userId := u, token := t\<rparr>, w) =
      (case request E vb pth dat js prms ignoreUpdate (c, w) of
         (r, c', w') \<Rightarrow> (r, c'\<lparr>userId := u, token := t\<rparr>, w'))) \<and>
   (lastUpdate c = None \<longrightarrow>
      request E vb pth dat js prms ignoreUpdate (c, w) =
        (classify (transport E (sent w) (request_args E vb pth dat js prms c)), c,
         w\<lparr>sent := sent w @ [request_args E vb pth dat js prms c]\<rparr>) \<and>
      req_headers (request_args E vb pth dat js prms c) = Session.headers (session c))"
proof -
  have "Client_headers E c ''Authorization'' \<noteq> None \<longleftrightarrow> truthy (userId c) \<and> truthy (token c)"
    by (simp add: Client_headers_def Let_def)
  moreover have "\<not> truthy (userId c) \<or> \<not> truthy (token c) \<longrightarrow>
      Client_headers E c = [''User-Agent'' \<mapsto> ''neosvrpy/'' @ version E]"
    by (simp add: Client_headers_def Let_def)
  moreover have "\<forall>u t. userId c = Some u \<and> token c = Some t \<and> u \<noteq> [] \<and> t \<noteq> [] \<longrightarrow>
      Client_headers E c ''Authorization'' = Some (''neos '' @ u @ '':'' @ t)"
    by (simp add: Client_headers_def Let_def truthy_def str_of_def)
  ultimately show ?thesis
    by (simp add: request_credentials request_bypass perform_result request_args_def)
qed

theorem headers_authorization_iff_credentials_witness:
  "Client_headers (sample_env (\<lambda>rq. answer 204 [] None)) new_client
     = [''User-Agent'' \<mapsto> ''neosvrpy/1.3.1''] \<and>
   Client_headers (sample_env (\<lambda>rq. answer 204 [] None)) known_client ''Authorization''
     = Some ''neos U-abc:tok'' \<and>
   request (sample_env (\<lambda>rq. answer 204 [] None)) Get ''/users/U-abc'' None None None False
     (new_client, new_world)
   = (Inr JNull, new_client,
      new_world\<lparr>sent :=
        [\<lparr>req_verb = Get, req_url = ''https://api.neos.com/api/users/U-abc'',
          req_data = None, req_json = None, req_params = None,
          req_headers = [''User-Agent'' \<mapsto> ''python-requests'']\<rparr>]\<rparr>)"
proof -
  note fresh = headers_authorization_iff_credentials
          [of new_client "sample_env (\<lambda>rq. answer 204 [] None)" Get "''/users/U-abc''"
              None None None False new_world]
  note known = headers_authorization_iff_credentials
          [of known_client "sample_env (\<lambda>rq. answer 204 [] None)" Get "''/users/U-abc''"
              None None None False new_world]
  from fresh [THEN conjunct1]
  have a: "Client_headers (sample_env (\<lambda>rq. answer 204 [] None)) new_client
             = [''User-Agent'' \<mapsto> ''neosvrpy/1.3.1'']"
    by (simp add: new_client_def truthy_def sample_env_def)
  from known [THEN conjunct2, THEN conjunct2, THEN conjunct1]
  have b: "Client_headers (sample_env (\<lambda>rq. answer 204 [] None)) known_client ''Authorization''
             = Some ''neos U-abc:tok''"
    by (simp add: known_client_def)
  from fresh [THEN conjunct2, THEN conjunct2, THEN conjunct2, THEN conjunct2]
  have c: "request (sample_env (\<lambda>rq. answer 204 [] None)) Get ''/users/U-abc'' None None None
             False (new_client, new_world)
           = (Inr JNull, new_client,
              new_world\<lparr>sent :=
                [\<lparr>req_verb = Get, req_url = ''https://api.neos.com/api/users/U-abc'',
                  req_data = None, req_json = None, req_params = None,
                  req_headers = [''User-Agent'' \<mapsto> ''python-requests'']\<rparr>]\<rparr>)"
    by (simp add: new_client_def new_world_def sample_env_def answer_def request_args_def
          arg_def classify_def)
  from a b c show ?thesis by simp
qed

section \<open>The refresh gate\<close>

text \<open>Lines 101 to 113 on a client whose \<^verbatim>\<open>lastUpdate\<close> is set, for a call that
  does not pass \<^verbatim>\<open>ignoreUpdate\<close>. The keep-alive is the call of line 105; being
  made with \<^verbatim>\<open>ignoreUpdate=True\<close> it runs lines 114 to 137 only.\<close>

lemma request_refresh:
  assumes "lastUpdate c = Some lu"
  shows "request E vb pth dat js prms False (c, w) =
     (if now E (ticks w) - lu \<le> 3600000 * 1000000 then
        (case classify (transport E (sent w)
                 (request_args E Patch ''/userSessions'' None None None c)) of
           Inl e \<Rightarrow>
             (Inl e, c,
              w\<lparr>ticks := Suc (ticks w),
                sent := sent w @ [request_args E Patch ''/userSessions'' None None None c]\<rparr>)
         | Inr r \<Rightarrow>
             perform E vb pth dat js prms
               (c\<lparr>lastUpdate := Some (now E (Suc (ticks w)))\<rparr>,
                w\<lparr>sent := sent w @ [request_args E Patch ''/userSessions'' None None None c],
                  ticks := Suc (Suc (ticks w))\<rparr>))
      else (Inl (InvalidToken (Message ''Token expired'')), c, w\<lparr>ticks := Suc (ticks w)\<rparr>))"
  apply (subst request.simps)
  apply (simp add: assms datetime_now_def request_bypass perform_result)
  apply (simp split: sum.splits add: datetime_now_def)
  done

text \<open>
  Claim C4, as the code has it. On a client with \<^verbatim>\<open>lastUpdate\<close> set and a call
  that does not bypass the gate, the clock is read once. If the elapsed time is at most
  \<open>3600000\<close> seconds, one keep-alive \<^verbatim>\<open>PATCH /userSessions\<close> is handed to the
  transport, without a second pass through the gate. If the keep-alive returns,
  \<^verbatim>\<open>lastUpdate\<close> becomes the next reading of the clock and the original call is
  the next and only other request sent, its classified response being the result; if the
  keep-alive raises, its exception is the result, \<^verbatim>\<open>lastUpdate\<close> is unchanged and
  the original call is not sent. If the elapsed time is larger, \<^verbatim>\<open>InvalidToken\<close>
  is raised and nothing is sent.
\<close>

theorem request_refresh_gate:
  assumes "lastUpdate c = Some lu"
  shows
    "(now E (ticks w) - lu \<le> 3600000 * 1000000 \<and>
      classify (transport E (sent w)
         (request_args E Patch ''/userSessions'' None None None c)) = Inr r \<longrightarrow>
        request E vb pth dat js prms False (c, w) =
          (classify (transport E
              (sent w @ [request_args E Patch ''/userSessions'' None None None c])
              (request_args E vb pth dat js prms c)),
           c\<lparr>lastUpdate := Some (now E (Suc (ticks w)))\<rparr>,
           w\<lparr>sent := sent w @ [request_args E Patch ''/userSessions'' None None None c,
                               request_args E vb pth dat js prms c],
             ticks := Suc (Suc (ticks w))\<rparr>)) \<and>
     (now E (ticks w) - lu \<le> 3600000 * 1000000 \<and>
      classify (transport E (sent w)
         (request_args E Patch ''/userSessions'' None None None c)) = Inl e \<longrightarrow>
        request E vb pth dat js prms False (c, w) =
          (Inl e, c,
           w\<lparr>ticks := Suc (ticks w),
             sent := sent w @ [request_args E Patch ''/userSessions'' None None None c]\<rparr>)) \<and>
     (\<not> now E (ticks w) - lu \<le> 3600000 * 1000000 \<longrightarrow>
        request E vb pth dat js prms False (c, w) =
          (Inl (InvalidToken (Message ''Token expired'')), c, w\<lparr>ticks := Suc (ticks w)\<rparr>))"
  by (simp add: request_refresh [OF assms] perform_result request_args_def)

theorem request_refresh_gate_witness:
  "request (sample_env (\<lambda>rq. answer 204 [] None)) Get ''/users/U-abc'' None None None False
     (known_client, new_world)
   = (Inr JNull, known_client\<lparr>lastUpdate := Some 51\<rparr>,
      new_world\<lparr>sent := [request_args (sample_env (\<lambda>rq. answer 204 [] None)) Patch
                   ''/userSessions'' None None None known_client,
                 request_args (sample_env (\<lambda>rq. answer 204 [] None)) Get ''/users/U-abc''
                   None None None known_client],
        ticks := 2\<rparr>) \<and>
   request (sample_env (\<lambda>rq. answer 403 ''Forbidden'' None)) Get ''/users/U-abc'' None None None
     False (known_client, new_world)
   = (Inl (InvalidToken (Headers [])), known_client,
      new_world\<lparr>ticks := 1,
        sent := [request_args (sample_env (\<lambda>rq. answer 403 ''Forbidden'' None)) Patch
                   ''/userSessions'' None None None known_client]\<rparr>) \<and>
   request ((sample_env (\<lambda>rq. answer 204 [] None))\<lparr>now := \<lambda>n. 3600000000041 + int n\<rparr>)
     Get ''/users/U-abc'' None None None False (known_client, new_world)
   = (Inl (InvalidToken (Message ''Token expired'')), known_client, new_world\<lparr>ticks := 1\<rparr>)"
proof -
  have lu: "lastUpdate known_client = Some 40" by (simp add: known_client_def)
  note ok = request_refresh_gate [OF lu, of "sample_env (\<lambda>rq. answer 204 [] None)" new_world
              JNull Get "''/users/U-abc''" None None None]
  note ko = request_refresh_gate [OF lu, of "sample_env (\<lambda>rq. answer 403 ''Forbidden'' None)"
              new_world _ Get "''/users/U-abc''" None None None "InvalidToken (Headers [])"]
  note late = request_refresh_gate [OF lu,
              of "(sample_env (\<lambda>rq. answer 204 [] None))\<lparr>now := \<lambda>n. 3600000000041 + int n\<rparr>"
              new_world _ Get "''/users/U-abc''" None None None]
  from ok [THEN conjunct1] have a:
    "request (sample_env (\<lambda>rq. answer 204 [] None)) Get ''/users/U-abc'' None None None False
       (known_client, new_world)
     = (Inr JNull, known_client\<lparr>lastUpdate := Some 51\<rparr>,
        new_world\<lparr>sent := [request_args (sample_env (\<lambda>rq. answer 204 [] None)) Patch
                     ''/userSessions'' None None None known_client,
                   request_args (sample_env (\<lambda>rq. answer 204 [] None)) Get ''/users/U-abc''
                     None None None known_client],
          ticks := 2\<rparr>)"
    by (simp add: sample_env_def new_world_def answer_def classify_def)
  from ko [THEN conjunct2, THEN conjunct1] have b:
    "request (sample_env (\<lambda>rq. answer 403 ''Forbidden'' None)) Get ''/users/U-abc'' None None
       None False (known_client, new_world)
     = (Inl (InvalidToken (Headers [])), known_client,
        new_world\<lparr>ticks := 1,
          sent := [request_args (sample_env (\<lambda>rq. answer 403 ''Forbidden'' None)) Patch
                     ''/userSessions'' None None None known_client]\<rparr>)"
    by (simp add: sample_env_def new_world_def answer_def classify_def)
  from late [THEN conjunct2, THEN conjunct2] have c:
    "request ((sample_env (\<lambda>rq. answer 204 [] None))\<lparr>now := \<lambda>n. 3600000000041 + int n\<rparr>)
       Get ''/users/U-abc'' None None None False (known_client, new_world)
     = (Inl (InvalidToken (Message ''Token expired'')), known_client, new_world\<lparr>ticks := 1\<rparr>)"
    by (simp add: sample_env_def new_world_def)
  from a b c show ?thesis by simp
qed

text \<open>
  Claim C4 as stated promises, within the window, that \<^verbatim>\<open>lastUpdate\<close> is advanced
  and that the original operation proceeds. With a server that answers the keep-alive
  with status 500, ten microseconds after \<^verbatim>\<open>lastUpdate\<close>, the call raises the
  exception of the keep-alive, \<^verbatim>\<open>lastUpdate\<close> keeps its value and the original
  \<^verbatim>\<open>GET\<close> is not among the requests sent.
\<close>

theorem request_refresh_keepalive_fails:
  "now (sample_env (\<lambda>rq. answer 500 ''Internal Server Error'' None)) (ticks new_world) - 40
     \<le> 3600000 * 1000000 \<and>
   lastUpdate known_client = Some 40 \<and>
   fst (request (sample_env (\<lambda>rq. answer 500 ''Internal Server Error'' None)) Get ''/users/U-abc''
          None None None False (known_client, new_world))
     = Inl (NeosAPIException (answer 500 ''Internal Server Error'' None) None) \<and>
   lastUpdate (fst (snd (request (sample_env (\<lambda>rq. answer 500 ''Internal Server Error'' None)) Get
          ''/users/U-abc'' None None None False (known_client, new_world)))) = Some 40 \<and>
   map req_verb (sent (snd (snd (request (sample_env (\<lambda>rq. answer 500 ''Internal Server Error'' None)) Get
          ''/users/U-abc'' None None None False (known_client, new_world))))) = [Patch]"
proof -
  have lu: "lastUpdate known_client = Some 40" by (simp add: known_client_def)
  have out: "request (sample_env (\<lambda>rq. answer 500 ''Internal Server Error'' None)) Get ''/users/U-abc''
          None None None False (known_client, new_world)
     = (Inl (NeosAPIException (answer 500 ''Internal Server Error'' None) None), known_client,
        new_world\<lparr>ticks := 1,
          sent := [request_args (sample_env (\<lambda>rq. answer 500 ''Internal Server Error'' None)) Patch
                     ''/userSessions'' None None None known_client]\<rparr>)"
    by (simp add: request_refresh [OF lu])
       (simp add: sample_env_def new_world_def answer_def classify_def)
  have win: "now (sample_env (\<lambda>rq. answer 500 ''Internal Server Error'' None)) (ticks new_world) - 40
     \<le> 3600000 * 1000000"
    by (simp add: sample_env_def new_world_def)
  from out lu win show ?thesis
    by (simp add: request_args_def new_world_def)
qed

section \<open>Logging out\<close>

text \<open>\<^verbatim>\<open>logout\<close> hands one request to the transport, the
  \<^verbatim>\<open>DELETE\<close> of the session resource, and goes on to \<^verbatim>\<open>clean_session\<close>
  only if that call returned.\<close>

lemma logout_result:
  "logout E (c, w) =
     (case classify (transport E (sent w)
              (request_args E Delete
                 (''/userSessions/'' @ str_of (userId c) @ ''/'' @ str_of (token c))
                 None None None c)) of
        Inl e \<Rightarrow>
          (Inl e, c,
           w\<lparr>sent := sent w @
              [request_args E Delete
                 (''/userSessions/'' @ str_of (userId c) @ ''/'' @ str_of (token c))
                 None None None c]\<rparr>)
      | Inr r \<Rightarrow>
          clean_session E
            (c, w\<lparr>sent := sent w @
              [request_args E Delete
                 (''/userSessions/'' @ str_of (userId c) @ ''/'' @ str_of (token c))
                 None None None c]\<rparr>))"
  by (simp add: logout_def request_bypass perform_result split: sum.splits)

lemma clean_session_clears:
  "clean_session E (c, w) = (res, c', w') \<Longrightarrow>
   w' = w \<and> userId c' = None \<and> token c' = None \<and> expire c' = None \<and>
   Client.secretMachineId c' = None \<and> lastUpdate c' = None \<and>
   Session.headers (session c') ''Authorization'' = None"
  by (auto simp: clean_session_def Let_def Client_headers_def truthy_def map_add_def
           split: if_splits)

lemma clean_session_headers:
  "Session.headers (session c) ''Authorization'' \<noteq> None \<Longrightarrow>
   clean_session E (c, w) = (res, c', w') \<Longrightarrow>
   res = Inr () \<and>
   Session.headers (session c') =
     (Session.headers (session c))
       (''Authorization'' := None, ''User-Agent'' \<mapsto> ''neosvrpy/'' @ version E)"
  by (auto simp: clean_session_def Let_def Client_headers_def truthy_def)

text \<open>
  Claim C5. \<^verbatim>\<open>logout\<close> issues the \<^verbatim>\<open>DELETE\<close> of
  \<^verbatim>\<open>/userSessions/{userId}/{token}\<close>, past the refresh gate. If that call raises,
  the exception is the result and the client is left exactly as it was. If it returns,
  \<^verbatim>\<open>userId\<close>, \<^verbatim>\<open>token\<close>, \<^verbatim>\<open>expire\<close>, \<^verbatim>\<open>secretMachineId\<close> and
  \<^verbatim>\<open>lastUpdate\<close> are \<^verbatim>\<open>None\<close> afterwards and the session has no
  \<^verbatim>\<open>Authorization\<close> header; when it had one before, \<^verbatim>\<open>logout\<close> returns
  normally and the other headers are kept, \<^verbatim>\<open>User-Agent\<close> being set to the
  client's.
\<close>

theorem logout_clears_after_ack:
  "(classify (transport E (sent w)
       (request_args E Delete
          (''/userSessions/'' @ str_of (userId c) @ ''/'' @ str_of (token c))
          None None None c)) = Inl e \<longrightarrow>
      logout E (c, w) =
        (Inl e, c,
         w\<lparr>sent := sent w @
            [request_args E Delete
               (''/userSessions/'' @ str_of (userId c) @ ''/'' @ str_of (token c))
               None None None c]\<rparr>)) \<and>
   (classify (transport E (sent w)
       (request_args E Delete
          (''/userSessions/'' @ str_of (userId c) @ ''/'' @ str_of (token c))
          None None None c)) = Inr r \<longrightarrow>
      (\<exists>res c'. logout E (c, w) =
          (res, c',
           w\<lparr>sent := sent w @
              [request_args E Delete
                 (''/userSessions/'' @ str_of (userId c) @ ''/'' @ str_of (token c))
                 None None None c]\<rparr>) \<and>
         userId c' = None \<and> token c' = None \<and> expire c' = None \<and>
         Client.secretMachineId c' = None \<and> lastUpdate c' = None \<and>
         Session.headers (session c') ''Authorization'' = None \<and>
         (Session.headers (session c) ''Authorization'' \<noteq> None \<longrightarrow>
            res = Inr () \<and>
            Session.headers (session c') =
              (Session.headers (session c))
                (''Authorization'' := None, ''User-Agent'' \<mapsto> ''neosvrpy/'' @ version E))))"
proof (intro conjI impI)
  assume "classify (transport E (sent w)
       (request_args E Delete
          (''/userSessions/'' @ str_of (userId c) @ ''/'' @ str_of (token c))
          None None None c)) = Inl e"
  then show "logout E (c, w) =
        (Inl e, c,
         w\<lparr>sent := sent w @
            [request_args E Delete
               (''/userSessions/'' @ str_of (userId c) @ ''/'' @ str_of (token c))
               None None None c]\<rparr>)"
    by (simp add: logout_result)
next
  let ?w = "w\<lparr>sent := sent w @
            [request_args E Delete
               (''/userSessions/'' @ str_of (userId c) @ ''/'' @ str_of (token c))
               None None None c]\<rparr>"
  assume "classify (transport E (sent w)
       (request_args E Delete
          (''/userSessions/'' @ str_of (userId c) @ ''/'' @ str_of (token c))
          None None None c)) = Inr r"
  then have l: "logout E (c, w) = clean_session E (c, ?w)"
    by (simp add: logout_result)
  obtain res c' w' where cs: "clean_session E (c, ?w) = (res, c', w')"
    by (cases "clean_session E (c, ?w)")
  from clean_session_clears [OF cs] clean_session_headers [OF _ cs] l cs
  show "\<exists>res c'. logout E (c, w) = (res, c', ?w) \<and>
         userId c' = None \<and> token c' = None \<and> expire c' = None \<and>
         Client.secretMachineId c' = None \<and> lastUpdate c' = None \<and>
         Session.headers (session c') ''Authorization'' = None \<and>
         (Session.headers (session c) ''Authorization'' \<noteq> None \<longrightarrow>
            res = Inr () \<and>
            Session.headers (session c') =
              (Session.headers (session c))
                (''Authorization'' := None, ''User-Agent'' \<mapsto> ''neosvrpy/'' @ version E))"
    by auto
qed

theorem logout_clears_after_ack_witness:
  "logout (sample_env (\<lambda>rq. answer 500 ''Internal Server Error'' None)) (known_client, new_world) =
     (Inl (NeosAPIException (answer 500 ''Internal Server Error'' None) None), known_client,
      new_world\<lparr>sent :=
        [\<lparr>req_verb = Delete, req_url = ''https://api.neos.com/api/userSessions/U-abc/tok'',
          req_data = None, req_json = None, req_params = None,
          req_headers = [''User-Agent'' \<mapsto> ''neosvrpy/1.3.1'',
                         ''Authorization'' \<mapsto> ''neos U-abc:tok'']\<rparr>]\<rparr>) \<and>
   (\<exists>c'. logout (sample_env (\<lambda>rq. answer 204 [] None)) (known_client, new_world) =
       (Inr (), c',
        new_world\<lparr>sent :=
          [\<lparr>req_verb = Delete, req_url = ''https://api.neos.com/api/userSessions/U-abc/tok'',
            req_data = None, req_json = None, req_params = None,
            req_headers = [''User-Agent'' \<mapsto> ''neosvrpy/1.3.1'',
                           ''Authorization'' \<mapsto> ''neos U-abc:tok'']\<rparr>]\<rparr>) \<and>
       userId c' = None \<and> token c' = None \<and> expire c' = None \<and>
       Client.secretMachineId c' = None \<and> lastUpdate c' = None \<and>
       Session.headers (session c') ''Authorization'' = None)"
proof -
  from logout_clears_after_ack
         [of "sample_env (\<lambda>rq. answer 500 ''Internal Server Error'' None)" new_world known_client
             "NeosAPIException (answer 500 ''Internal Server Error'' None) None", THEN conjunct1]
  have a: "logout (sample_env (\<lambda>rq. answer 500 ''Internal Server Error'' None)) (known_client, new_world) =
     (Inl (NeosAPIException (answer 500 ''Internal Server Error'' None) None), known_client,
      new_world\<lparr>sent :=
        [\<lparr>req_verb = Delete, req_url = ''https://api.neos.com/api/userSessions/U-abc/tok'',
          req_data = None, req_json = None, req_params = None,
          req_headers = [''User-Agent'' \<mapsto> ''neosvrpy/1.3.1'',
                         ''Authorization'' \<mapsto> ''neos U-abc:tok'']\<rparr>]\<rparr>)"
    by (simp add: sample_env_def new_world_def known_client_def answer_def classify_def
          request_args_def arg_def str_of_def)
  from logout_clears_after_ack
         [of "sample_env (\<lambda>rq. answer 204 [] None)" new_world known_client _ JNull,
          THEN conjunct2]
  have b: "\<exists>c'. logout (sample_env (\<lambda>rq. answer 204 [] None)) (known_client, new_world) =
       (Inr (), c',
        new_world\<lparr>sent :=
          [\<lparr>req_verb = Delete, req_url = ''https://api.neos.com/api/userSessions/U-abc/tok'',
            req_data = None, req_json = None, req_params = None,
            req_headers = [''User-Agent'' \<mapsto> ''neosvrpy/1.3.1'',
                           ''Authorization'' \<mapsto> ''neos U-abc:tok'']\<rparr>]\<rparr>) \<and>
       userId c' = None \<and> token c' = None \<and> expire c' = None \<and>
       Client.secretMachineId c' = None \<and> lastUpdate c' = None \<and>
       Session.headers (session c') ''Authorization'' = None"
    by (simp add: sample_env_def new_world_def known_client_def answer_def classify_def
          request_args_def arg_def str_of_def) blast
  from a b show ?thesis by simp
qed

section \<open>Saving and loading the token\<close>

text \<open>What \<^verbatim>\<open>saveToken\<close> leaves in \<^verbatim>\<open>auth.token\<close>.\<close>

lemma saveToken_result:
  "expire c = Some e \<Longrightarrow>
   saveToken E (c, w) =
     (Inr (), c,
      w\<lparr>authfile := Some (JsonFile (JObj
          [(''userId'', json_of (userId c)),
           (''expire'', JStr (isoformat E e)),
           (''token'', json_of (token c)),
           (''secretMachineId'', json_of (Client.secretMachineId c))]))\<rparr>)"
  by (simp add: saveToken_def)

lemma load_str_json_of:
  "map_of kvs k = Some (json_of x) \<Longrightarrow> load_str (JObj kvs) k = Typed (Inr x)"
  by (cases x) (simp_all add: load_str_def py_getitem_def opt_str_of_def json_of_def)

text \<open>Loading a file that holds the fields \<open>u\<close>, \<open>t\<close>, \<open>m\<close> and the printed
  timestamp \<open>x\<close>, by the value the timestamp parses to.\<close>

lemma loadToken_file:
  assumes "authfile w = Some (JsonFile (JObj
             [(''userId'', json_of u), (''expire'', JStr x), (''token'', json_of t),
              (''secretMachineId'', json_of m)]))"
      and "fromisoformat E x = Some e"
  shows "loadToken E (c, w) =
     (if now E (ticks w) < e then
        Typed (Inr (),
          c\<lparr>token := t, userId := u, expire := Some e, Client.secretMachineId := m,
            session := (session c)\<lparr>Session.headers :=
               Session.headers (session c)
                 ++ Client_headers E
                      (c\<lparr>token := t, userId := u, expire := Some e,
                         Client.secretMachineId := m\<rparr>)\<rparr>\<rparr>,
          w\<lparr>ticks := Suc (ticks w)\<rparr>)
      else Typed (Inl NoTokenError, c, w\<lparr>ticks := Suc (ticks w)\<rparr>))"
proof -
  let ?kvs = "[(''userId'', json_of u), (''expire'', JStr x), (''token'', json_of t),
               (''secretMachineId'', json_of m)]"
  have e: "load_expire E (JObj ?kvs) = Inr e"
    using assms(2) by (simp add: load_expire_def py_getitem_def ebind_def)
  have s: "load_str (JObj ?kvs) ''token'' = Typed (Inr t)"
    "load_str (JObj ?kvs) ''userId'' = Typed (Inr u)"
    "load_str (JObj ?kvs) ''secretMachineId'' = Typed (Inr m)"
    by (simp_all add: load_str_json_of)
  show ?thesis
    by (simp add: loadToken_def assms(1) e s datetime_now_def Let_def)
qed



section \<open>Legacy messages\<close>

text \<open>
  Claim C8. With \<^verbatim>\<open>fromTime\<close> set to a non-empty value,
  \<^verbatim>\<open>getMessageLegacy\<close> raises the \<^verbatim>\<open>ValueError\<close> that says the parameter is
  not implemented (the specification's UnsupportedOperation), and neither the client
  nor the world has changed: nothing was sent. With \<^verbatim>\<open>fromTime\<close> not set, the
  method is the call of \<^verbatim>\<open>_request\<close> for a \<^verbatim>\<open>GET\<close> of
  \<^verbatim>\<open>/users/{userId}/messages\<close> whose \<^verbatim>\<open>params\<close> are \<^verbatim>\<open>maxItems\<close>,
  \<^verbatim>\<open>unreadOnly\<close> and, when a user is given, \<^verbatim>\<open>user\<close>; on a client without
  \<^verbatim>\<open>lastUpdate\<close> that request is the one request sent, and its classified response
  is the result.
\<close>

theorem getMessageLegacy_fromTime:
  "(truthy fromTime \<longrightarrow>
      getMessageLegacy E fromTime maxItems user unreadOnly (c, w) =
        (Inl (ValueError ''fromTime is not yet implemented''), c, w)) \<and>
   (\<not> truthy fromTime \<longrightarrow>
      getMessageLegacy E fromTime maxItems user unreadOnly (c, w) =
        request E Get (''/users/'' @ str_of (userId c) @ ''/messages'') None None
          (Some ([(''maxItems'', JInt maxItems), (''unreadOnly'', JBool unreadOnly)]
                 @ (if truthy user then [(''user'', JStr (str_of user))] else [])))
          False (c, w)) \<and>
   (\<not> truthy fromTime \<and> lastUpdate c = None \<longrightarrow>
      getMessageLegacy E fromTime maxItems user unreadOnly (c, w) =
        (classify (transport E (sent w)
           \<lparr>req_verb = Get,
            req_url = CLOUDX_NEOS_API E @ ''/users/'' @ str_of (userId c) @ ''/messages'',
            req_data = None, req_json = None,
            req_params = Some ([(''maxItems'', JInt maxItems), (''unreadOnly'', JBool unreadOnly)]
                 @ (if truthy user then [(''user'', JStr (str_of user))] else [])),
            req_headers = Session.headers (session c)\<rparr>),
         c,
         w\<lparr>sent := sent w @
           [\<lparr>req_verb = Get,
             req_url = CLOUDX_NEOS_API E @ ''/users/'' @ str_of (userId c) @ ''/messages'',
             req_data = None, req_json = None,
             req_params = Some ([(''maxItems'', JInt maxItems), (''unreadOnly'', JBool unreadOnly)]
                 @ (if truthy user then [(''user'', JStr (str_of user))] else [])),
             req_headers = Session.headers (session c)\<rparr>]\<rparr>))"
  by (simp add: getMessageLegacy_def request_bypass perform_result request_args_def arg_def)

theorem getMessageLegacy_fromTime_witness:
  "getMessageLegacy (sample_env (\<lambda>rq. answer 200 ''[]'' (Some (JArr []))))
     (Some ''2021-01-01'') 100 None False (new_client, new_world)
   = (Inl (ValueError ''fromTime is not yet implemented''), new_client, new_world) \<and>
   getMessageLegacy (sample_env (\<lambda>rq. answer 200 ''[]'' (Some (JArr []))))
     None 100 (Some ''U-def'') False (new_client\<lparr>userId := Some ''U-abc''\<rparr>, new_world)
   = (Inr (JArr []), new_client\<lparr>userId := Some ''U-abc''\<rparr>,
      new_world\<lparr>sent :=
        [\<lparr>req_verb = Get, req_url = ''https://api.neos.com/api/users/U-abc/messages'',
          req_data = None, req_json = None,
          req_params = Some [(''maxItems'', JInt 100), (''unreadOnly'', JBool False),
                             (''user'', JStr ''U-def'')],
          req_headers = [''User-Agent'' \<mapsto> ''python-requests'']\<rparr>]\<rparr>)"
proof -
  from getMessageLegacy_fromTime
         [of "Some ''2021-01-01''" "sample_env (\<lambda>rq. answer 200 ''[]'' (Some (JArr [])))"
             100 None False new_client new_world, THEN conjunct1]
  have a: "getMessageLegacy (sample_env (\<lambda>rq. answer 200 ''[]'' (Some (JArr []))))
     (Some ''2021-01-01'') 100 None False (new_client, new_world)
   = (Inl (ValueError ''fromTime is not yet implemented''), new_client, new_world)"
    by (simp add: truthy_def)
  from getMessageLegacy_fromTime
         [of None "sample_env (\<lambda>rq. answer 200 ''[]'' (Some (JArr [])))"
             100 "Some ''U-def''" False "new_client\<lparr>userId := Some ''U-abc''\<rparr>" new_world,
          THEN conjunct2, THEN conjunct2]
  have b: "getMessageLegacy (sample_env (\<lambda>rq. answer 200 ''[]'' (Some (JArr []))))
     None 100 (Some ''U-def'') False (new_client\<lparr>userId := Some ''U-abc''\<rparr>, new_world)
   = (Inr (JArr []), new_client\<lparr>userId := Some ''U-abc''\<rparr>,
      new_world\<lparr>sent :=
        [\<lparr>req_verb = Get, req_url = ''https://api.neos.com/api/users/U-abc/messages'',
          req_data = None, req_json = None,
          req_params = Some [(''maxItems'', JInt 100), (''unreadOnly'', JBool False),
                             (''user'', JStr ''U-def'')],
          req_headers = [''User-Agent'' \<mapsto> ''python-requests'']\<rparr>]\<rparr>)"
    by (simp add: truthy_def str_of_def new_client_def new_world_def sample_env_def answer_def
          classify_def py_in_def ebind_def)
  from a b show ?thesis by simp
qed

section \<open>Resolving a link\<close>

text \<open>A path with exactly two slashes, the first at its start, splits into an empty
  part and two parts without a slash; these are the owner and the record.\<close>

lemma split_no_sep: "sep \<notin> set s \<Longrightarrow> split s sep = [s]"
  by (induction s) auto

lemma split_owner_record:
  "CHR ''/'' \<notin> set user \<Longrightarrow> CHR ''/'' \<notin> set record \<Longrightarrow>
   split (''/'' @ user @ ''/'' @ record) CHR ''/'' = [[], user, record]"
  by (induction user) (auto simp: split_no_sep)

lemma resolveLink_owner_record:
  assumes "ParseResult.path (NeosLink.assetUri link) = ''/'' @ user @ ''/'' @ record"
      and "CHR ''/'' \<notin> set user" "CHR ''/'' \<notin> set record"
  shows "resolveLink E link (c, w) =
     (case request E Get (''/users/'' @ user @ ''/records/'' @ record)
             None None None False (c, w) of
        (Inl e, c1, w1) \<Rightarrow> (Inl e, c1, w1)
      | (Inr resp, c1, w1) \<Rightarrow> (decode_NeosDirectory E resp, c1, w1))"
  using split_owner_record [OF assms(2,3)] assms(1)
  by (simp add: resolveLink_def)



text \<open>The directory of the sample response, decoded.\<close>

lemma sample_directory_decoded:
  "from_dict_NeosDirectory (sample_env srv) (sample_record ''directory'') =
     Inr (NeosRecord.extend (payload_base (sample_env srv) (sample_record ''directory'') DIRECTORY)
            (NeosDirectory.fields None ''abc'' [''a''] None))"
proof -
  have "from_dict_NeosRecord (sample_env srv) (sample_record ''directory'')
          = Inr (payload_base (sample_env srv) (sample_record ''directory'') DIRECTORY)"
    by (rule from_dict_NeosRecord_wf)
       (simp_all add: sample_record_wf_base sample_record_known_type RecordType_of_def)
  then show ?thesis
    by (simp add: from_dict_NeosDirectory_def ebind_def)
       (simp add: sample_record_def field_opt_str_def field_str_def field_str_list_def
          field_opt_datetime_def)
qed

end
